theory Spec2Isabelle
  imports Complex_Main "HOL-Library.Product_Lexorder" "HOL-Library.Multiset"
begin

section \<open>The trajectory engine of the ballistic calculators\<close>

text \<open>
  The repository holds several variants of one ballistic calculator. The engine they share
  is embedded here: the drag tables, curve interpolation, the projectile's thrust and mass,
  the air-density formula with its ISA table, the derivative of the equations of motion and
  the integration loops.

  Python floats are modelled as the real numbers: rounding, overflow, infinities and NaN are
  outside the model. The one exception is the clock of the RK4 loop, whose accumulated
  rounding decides how many iterations fit below 120 s: there the sum is rounded to a
  double as the machine does it. Every exception the modelled code can raise on real-valued
  input (division by zero, indexing an empty list, a missing dictionary key) is a value of
  \<open>py_error\<close>, returned as \<open>Inl\<close>. A loop that may run forever returns \<open>None\<close>.
\<close>

subsection \<open>Errors and arithmetic helpers\<close>

datatype py_error = ZeroDivisionError | IndexError | KeyError

definition ebind :: "py_error + 'a \<Rightarrow> ('a \<Rightarrow> py_error + 'b) \<Rightarrow> py_error + 'b" where
  "ebind r f = (case r of Inl e \<Rightarrow> Inl e | Inr v \<Rightarrow> f v)"

definition py_div :: "real \<Rightarrow> real \<Rightarrow> py_error + real" where
  "py_div a b = (if b = 0 then Inl ZeroDivisionError else Inr (a / b))"

definition radians :: "real \<Rightarrow> real" where
  "radians d = d * pi / 180"

definition hypot :: "real \<Rightarrow> real \<Rightarrow> real" where
  "hypot a b = sqrt (a\<^sup>2 + b\<^sup>2)"

text \<open>\<open>math.atan2(y, x)\<close> on the reals (no signed zeros).\<close>

definition atan2 :: "real \<Rightarrow> real \<Rightarrow> real" where
  "atan2 y x =
     (if 0 < x then arctan (y / x)
      else if x < 0 then (if 0 \<le> y then arctan (y / x) + pi else arctan (y / x) - pi)
      else if 0 < y then pi / 2
      else if y < 0 then - (pi / 2)
      else 0)"

definition GRAVITY :: real where
  "GRAVITY = 9.80665"

definition EARTH_ROTATION_RATE :: real where
  "EARTH_ROTATION_RATE = 7.292115 / 100000"

definition SPEED_OF_SOUND :: real where
  "SPEED_OF_SOUND = 343"

subsection \<open>Interpolation helpers\<close>

definition linear_interpolate :: "real \<Rightarrow> real \<Rightarrow> real \<Rightarrow> real \<Rightarrow> real \<Rightarrow> real" where
  "linear_interpolate x x0 x1 y0 y1 =
     (if x1 = x0 then y0 else y0 + ((y1 - y0) * (x - x0) / (x1 - x0)))"

text \<open>
  The \<open>for i in range(1, len(xs))\<close> loop of \<open>interpolate_curve\<close>: \<open>prev\<close> is the point
  at index \<open>i - 1\<close>, the list holds the points from index \<open>i\<close> on. \<open>None\<close> means the loop
  ran to its end without returning.
\<close>

fun interp_loop :: "real \<Rightarrow> real \<times> real \<Rightarrow> (real \<times> real) list \<Rightarrow> real option" where
  "interp_loop x prev [] = None"
| "interp_loop x prev (p # ps) =
     (if x < fst p then Some (linear_interpolate x (fst prev) (fst p) (snd prev) (snd p))
      else interp_loop x p ps)"

text \<open>\<open>sorted(curve)\<close> orders the pairs lexicographically, as \<open>sort\<close> does on products.\<close>

definition interpolate_curve :: "real \<Rightarrow> (real \<times> real) list \<Rightarrow> real" where
  "interpolate_curve x curve =
     (if curve = [] \<or> length curve < 2 then (case curve of [] \<Rightarrow> 0 | p # _ \<Rightarrow> snd p)
      else let c = sort curve in
        if x \<le> fst (hd c) then snd (hd c)
        else if fst (last c) \<le> x then snd (last c)
        else (case interp_loop x (hd c) (tl c) of Some r \<Rightarrow> r | None \<Rightarrow> snd (last c)))"

subsection \<open>Drag tables\<close>

definition G1 :: "real \<Rightarrow> real" where
  "G1 v = (let mach = v / SPEED_OF_SOUND in
     if mach > 4.0 then 0.45
     else if mach > 3.0 then 0.42
     else if mach > 2.5 then 0.40
     else if mach > 2.0 then 0.38
     else if mach > 1.5 then 0.35
     else if mach > 1.2 then 0.33
     else if mach > 1.0 then 0.31
     else if mach > 0.9 then 0.30
     else if mach > 0.8 then 0.29
     else if mach > 0.7 then 0.28
     else if mach > 0.6 then 0.27
     else 0.25)"

definition G7 :: "real \<Rightarrow> real" where
  "G7 v = (let mach = v / SPEED_OF_SOUND in
     if mach > 4.0 then 0.38
     else if mach > 3.0 then 0.36
     else if mach > 2.5 then 0.34
     else if mach > 2.0 then 0.32
     else if mach > 1.5 then 0.30
     else if mach > 1.2 then 0.28
     else if mach > 1.0 then 0.26
     else if mach > 0.9 then 0.25
     else if mach > 0.8 then 0.24
     else if mach > 0.7 then 0.23
     else if mach > 0.6 then 0.22
     else 0.21)"

definition DragModel_rocket :: "real \<Rightarrow> real" where
  "DragModel_rocket v = (let mach = v / SPEED_OF_SOUND in
     if mach > 3.0 then 0.50
     else if mach > 2.0 then 0.45
     else if mach > 1.5 then 0.40
     else if mach > 1.0 then 0.35
     else if mach > 0.8 then 0.30
     else 0.25)"

definition DragModel_mortar :: "real \<Rightarrow> real" where
  "DragModel_mortar v = (let mach = v / SPEED_OF_SOUND in
     if mach > 1.5 then 0.55
     else if mach > 1.0 then 0.50
     else if mach > 0.8 then 0.45
     else 0.40)"

definition DragModel_custom :: "real \<Rightarrow> (real \<times> real) list \<Rightarrow> real" where
  "DragModel_custom v curve = interpolate_curve v curve"

text \<open>
  The drag tables as the specification words them: a list of descending Mach thresholds,
  each with its coefficient, read from the top; the first threshold that the Mach number
  exceeds selects the coefficient, and a default applies below all of them.
\<close>

fun bucket :: "(real \<times> real) list \<Rightarrow> real \<Rightarrow> real \<Rightarrow> real" where
  "bucket [] dflt mach = dflt"
| "bucket ((thr, cd) # rest) dflt mach = (if mach > thr then cd else bucket rest dflt mach)"

definition G1_thresholds :: "(real \<times> real) list" where
  "G1_thresholds = [(4, 0.45), (3, 0.42), (2.5, 0.40), (2, 0.38), (1.5, 0.35), (1.2, 0.33),
     (1, 0.31), (0.9, 0.30), (0.8, 0.29), (0.7, 0.28), (0.6, 0.27)]"

definition G7_thresholds :: "(real \<times> real) list" where
  "G7_thresholds = [(4, 0.38), (3, 0.36), (2.5, 0.34), (2, 0.32), (1.5, 0.30), (1.2, 0.28),
     (1, 0.26), (0.9, 0.25), (0.8, 0.24), (0.7, 0.23), (0.6, 0.22)]"

definition rocket_thresholds :: "(real \<times> real) list" where
  "rocket_thresholds = [(3, 0.50), (2, 0.45), (1.5, 0.40), (1, 0.35), (0.8, 0.30)]"

definition mortar_thresholds :: "(real \<times> real) list" where
  "mortar_thresholds = [(1.5, 0.55), (1, 0.50), (0.8, 0.45)]"

subsection \<open>Projectile\<close>

text \<open>
  The \<open>Projectile\<close> class. A Python dictionary \<open>thrust_curve\<close> is an association list
  read through \<open>map_of\<close>, its keys are \<open>remdups (map fst _)\<close>; \<open>custom_drag_curve\<close> is
  \<open>None\<close> or a list of (velocity, Cd) pairs.
\<close>

record Projectile =
  mass :: real
  diameter :: real
  drag_model :: string
  velocity :: real
  area :: real
  projectile_type :: string
  thrust_curve :: "(real \<times> real) list"
  burn_time :: real
  initial_mass :: real
  custom_drag_curve :: "(real \<times> real) list option"

text \<open>\<open>Projectile.__init__\<close>: \<open>thrust_curve or {}\<close>, and \<open>initial_mass = mass\<close>.\<close>

definition Projectile_init ::
  "real \<Rightarrow> real \<Rightarrow> string \<Rightarrow> real \<Rightarrow> string \<Rightarrow> (real \<times> real) list option \<Rightarrow> real \<Rightarrow>
   (real \<times> real) list option \<Rightarrow> Projectile" where
  "Projectile_init m d dm v ptype tc bt cdc =
     \<lparr> mass = m, diameter = d, drag_model = dm, velocity = v, area = pi * (d / 2)\<^sup>2,
       projectile_type = ptype,
       thrust_curve = (case tc of None \<Rightarrow> [] | Some c \<Rightarrow> c),
       burn_time = bt, initial_mass = m, custom_drag_curve = cdc \<rparr>"

definition drag_coefficient :: "Projectile \<Rightarrow> real \<Rightarrow> real" where
  "drag_coefficient p v =
     (if drag_model p = ''G1'' then G1 v
      else if drag_model p = ''G7'' then G7 v
      else if drag_model p = ''rocket'' then DragModel_rocket v
      else if drag_model p = ''mortar'' then DragModel_mortar v
      else if drag_model p = ''Custom'' \<and> custom_drag_curve p \<noteq> None \<and> custom_drag_curve p \<noteq> Some []
        then (case custom_drag_curve p of Some c \<Rightarrow> DragModel_custom v c | None \<Rightarrow> 0.3)
      else 0.3)"

definition dict_keys :: "(real \<times> real) list \<Rightarrow> real list" where
  "dict_keys d = remdups (map fst d)"

definition dict_get :: "(real \<times> real) list \<Rightarrow> real \<Rightarrow> py_error + real" where
  "dict_get d k = (case map_of d k of None \<Rightarrow> Inl KeyError | Some v \<Rightarrow> Inr v)"

text \<open>
  The \<open>for i in range(1, len(times))\<close> loop of \<open>get_thrust\<close>: \<open>t0\<close> is \<open>times[i-1]\<close>,
  the list holds the keys from index \<open>i\<close> on. Falling off the end returns 0.
\<close>

fun thrust_loop :: "(real \<times> real) list \<Rightarrow> real \<Rightarrow> real \<Rightarrow> real list \<Rightarrow> py_error + real" where
  "thrust_loop d time t0 [] = Inr 0"
| "thrust_loop d time t0 (t1 # ts) =
     (if time \<le> t1 then
        ebind (dict_get d t0) (\<lambda>f0.
        ebind (dict_get d t1) (\<lambda>f1.
        ebind (py_div ((f1 - f0) * (time - t0)) (t1 - t0)) (\<lambda>q. Inr (f0 + q))))
      else thrust_loop d time t1 ts)"

text \<open>\<open>Projectile.get_thrust\<close> as in the ultimate edition (with the empty-curve guard).\<close>

definition get_thrust :: "Projectile \<Rightarrow> real \<Rightarrow> py_error + real" where
  "get_thrust p time =
     (if time > burn_time p then Inr 0
      else let times = sort (dict_keys (thrust_curve p)) in
        if times = [] then Inr 0
        else if time \<le> hd times then dict_get (thrust_curve p) (hd times)
        else if time \<ge> last times then dict_get (thrust_curve p) (last times)
        else thrust_loop (thrust_curve p) time (hd times) (tl times))"

text \<open>
  \<open>Projectile.get_thrust\<close> as in v344.py: no guard, so \<open>times[0]\<close> on an empty key list
  raises IndexError.
\<close>

definition get_thrust_v344 :: "Projectile \<Rightarrow> real \<Rightarrow> py_error + real" where
  "get_thrust_v344 p time =
     (if time > burn_time p then Inr 0
      else let times = sort (dict_keys (thrust_curve p)) in
        if times = [] then Inl IndexError
        else if time \<le> hd times then dict_get (thrust_curve p) (hd times)
        else if time \<ge> last times then dict_get (thrust_curve p) (last times)
        else thrust_loop (thrust_curve p) time (hd times) (tl times))"

definition get_mass :: "Projectile \<Rightarrow> real \<Rightarrow> py_error + real" where
  "get_mass p time =
     (if projectile_type p \<noteq> ''rocket'' \<or> time > burn_time p then Inr (mass p)
      else ebind (py_div time (burn_time p)) (\<lambda>q.
             Inr (initial_mass p - (initial_mass p - mass p) * q)))"

subsection \<open>Environment\<close>

record Environment =
  altitude :: real
  temperature :: real
  pressure :: real
  humidity :: real
  wind_speed :: real
  wind_angle :: real
  coriolis :: bool
  latitude :: real
  air_density :: real

text \<open>
  The density formula shared by every \<open>Environment.calculate_air_density\<close>: the temperature
  (Celsius) and pressure (hPa) it is applied to, the humidity and the altitude.
\<close>

definition density_formula :: "real \<Rightarrow> real \<Rightarrow> real \<Rightarrow> real \<Rightarrow> py_error + real" where
  "density_formula temp pres hum alt =
     (let temp_kelvin = temp + 273.15; R = 287.058 in
      ebind (py_div (7.5 * temp) (temp + 237.3)) (\<lambda>ex.
      let svp = 6.1078 * (10 powr ex); vp = svp * hum / 100 in
      ebind (py_div (pres * 100) (R * temp_kelvin)) (\<lambda>a.
      ebind (py_div (0.378 * vp) (pres * 100)) (\<lambda>b.
      let density = a * (1 - b) in
      Inr (density * exp (- alt / 10000))))))"

text \<open>\<open>Environment.calculate_air_density\<close> of the ultimate edition, on the fields it reads.\<close>

definition calculate_air_density :: "real \<Rightarrow> real \<Rightarrow> real \<Rightarrow> real \<Rightarrow> py_error + real" where
  "calculate_air_density alt temp pres hum = density_formula temp pres hum alt"

definition Environment_init ::
  "real \<Rightarrow> real \<Rightarrow> real \<Rightarrow> real \<Rightarrow> real \<Rightarrow> real \<Rightarrow> bool \<Rightarrow> real \<Rightarrow> py_error + Environment" where
  "Environment_init alt temp pres hum ws wa cor lat =
     ebind (calculate_air_density alt temp pres hum) (\<lambda>rho.
       Inr \<lparr> altitude = alt, temperature = temp, pressure = pres, humidity = hum,
             wind_speed = ws, wind_angle = wa, coriolis = cor, latitude = lat,
             air_density = rho \<rparr>)"

text \<open>The ISA anchors (altitude in m, temperature in Celsius, pressure in hPa) of Beta 4.\<close>

definition ISA_TABLE :: "(real \<times> real \<times> real) list" where
  "ISA_TABLE =
     [(0, 15.0, 1013.25), (1000, 8.5, 898.76), (2000, 2.0, 794.98),
      (3000, -4.5, 701.12), (4000, -11.0, 616.60), (5000, -17.5, 540.19),
      (6000, -24.0, 471.82), (7000, -30.5, 410.55), (8000, -37.0, 356.51),
      (9000, -43.5, 308.78), (10000, -50.0, 265.00)]"

text \<open>
  The loop of \<open>Environment.isa_interp\<close>: \<open>prev\<close> is \<open>ISA_TABLE[i-1]\<close>, the list holds the
  rows from index \<open>i\<close> on; falling off the end returns the last row's values. The division
  is by the distance of two neighbouring anchors, which is 1000 throughout the table.
\<close>

fun isa_loop :: "real \<Rightarrow> real \<times> real \<times> real \<Rightarrow> (real \<times> real \<times> real) list \<Rightarrow> real \<times> real" where
  "isa_loop alt prev [] = (fst (snd prev), snd (snd prev))"
| "isa_loop alt prev (row # rows) =
     (if alt < fst row then
        (case prev of (a0, t0, p0) \<Rightarrow> case row of (a1, t1, p1) \<Rightarrow>
           let f = (alt - a0) / (a1 - a0) in (t0 + f * (t1 - t0), p0 + f * (p1 - p0)))
      else isa_loop alt row rows)"

definition isa_interp :: "real \<Rightarrow> real \<times> real" where
  "isa_interp alt = isa_loop alt (hd ISA_TABLE) (tl ISA_TABLE)"

text \<open>\<open>Environment.calculate_air_density\<close> of Beta 4, with the dynamic-air switch.\<close>

definition calculate_air_density_b4 ::
  "bool \<Rightarrow> real \<Rightarrow> real \<Rightarrow> real \<Rightarrow> real \<Rightarrow> py_error + real" where
  "calculate_air_density_b4 dynamic_air temp pres hum alt =
     (case (if dynamic_air then isa_interp alt else (temp, pres)) of
        (temp', pres') \<Rightarrow> density_formula temp' pres' hum alt)"

subsection \<open>The RK4 integrator\<close>

text \<open>
  The state list \<open>[x, y, vx, vy]\<close> and the trajectory tuple
  \<open>(x, y, time, vx, vy, speed)\<close>.
\<close>

type_synonym state = "real \<times> real \<times> real \<times> real"

type_synonym sample = "real \<times> real \<times> real \<times> real \<times> real \<times> real"

definition state_y :: "state \<Rightarrow> real" where
  "state_y s = fst (snd s)"

definition state_vx :: "state \<Rightarrow> real" where
  "state_vx s = fst (snd (snd s))"

definition state_vy :: "state \<Rightarrow> real" where
  "state_vy s = snd (snd (snd s))"

definition sample_of :: "state \<Rightarrow> real \<Rightarrow> sample" where
  "sample_of s t = (fst s, state_y s, t, state_vx s, state_vy s, hypot (state_vx s) (state_vy s))"




text \<open>
  The closure \<open>derivative(s, t)\<close> of \<open>_calculate_trajectory\<close> (ultimate edition), with the
  variables it captures as parameters.
\<close>

definition derivative ::
  "Projectile \<Rightarrow> Environment \<Rightarrow> real \<Rightarrow> real \<Rightarrow> real \<Rightarrow> state \<Rightarrow> real \<Rightarrow> py_error + state" where
  "derivative projectile environment angle_rad wind_x wind_y s t =
     (case s of (x, y, vx, vy) \<Rightarrow>
      let v_rel_x = vx - wind_x;
          v_rel_y = vy - wind_y;
          v_rel = hypot v_rel_x v_rel_y;
          drag_coeff = drag_coefficient projectile v_rel;
          drag_force = 0.5 * air_density environment * v_rel\<^sup>2 * drag_coeff * area projectile
      in
      ebind (if v_rel > 0
             then ebind (get_mass projectile t) (\<lambda>m.
                    ebind (py_div (drag_force * v_rel_x) (m * v_rel)) (\<lambda>q. Inr (- q)))
             else Inr 0) (\<lambda>ax.
      ebind (if v_rel > 0
             then ebind (get_mass projectile t) (\<lambda>m.
                    ebind (py_div (drag_force * v_rel_y) (m * v_rel)) (\<lambda>q. Inr (- GRAVITY - q)))
             else Inr (- GRAVITY)) (\<lambda>ay.
      ebind (if projectile_type projectile = ''rocket'' \<and> t < burn_time projectile
             then ebind (get_thrust projectile t) (\<lambda>thrust.
                    let thrust_angle = (if t = 0 then angle_rad else atan2 vy vx) in
                    ebind (get_mass projectile t) (\<lambda>m1.
                    ebind (py_div (thrust * cos thrust_angle) m1) (\<lambda>dax.
                    ebind (get_mass projectile t) (\<lambda>m2.
                    ebind (py_div (thrust * sin thrust_angle) m2) (\<lambda>day.
                      Inr (ax + dax, ay + day))))))
             else Inr (ax, ay)) (\<lambda>a.
      if coriolis environment
      then let coriolis_param = 2 * EARTH_ROTATION_RATE * sin (radians (latitude environment))
           in Inr (vx, vy, fst a + coriolis_param * vy, snd a - coriolis_param * vx)
      else Inr (vx, vy, fst a, snd a)))))"

text \<open>\<open>[s + c * k for s, k in zip(state, k)]\<close>.\<close>

definition axpy :: "state \<Rightarrow> real \<Rightarrow> state \<Rightarrow> state" where
  "axpy s c k =
     (case s of (s0, s1, s2, s3) \<Rightarrow> case k of (k0, k1, k2, k3) \<Rightarrow>
        (s0 + c * k0, s1 + c * k1, s2 + c * k2, s3 + c * k3))"

definition rk4_combine :: "state \<Rightarrow> state \<Rightarrow> state \<Rightarrow> state \<Rightarrow> state" where
  "rk4_combine k1 k2 k3 k4 =
     (case k1 of (a0, a1, a2, a3) \<Rightarrow> case k2 of (b0, b1, b2, b3) \<Rightarrow>
      case k3 of (c0, c1, c2, c3) \<Rightarrow> case k4 of (d0, d1, d2, d3) \<Rightarrow>
        (a0 + 2 * b0 + 2 * c0 + d0, a1 + 2 * b1 + 2 * c1 + d1,
         a2 + 2 * b2 + 2 * c2 + d2, a3 + 2 * b3 + 2 * c3 + d3))"

text \<open>One pass of the loop body after the sample is saved: the four stages and the update.\<close>

definition rk4_step ::
  "(state \<Rightarrow> real \<Rightarrow> py_error + state) \<Rightarrow> real \<Rightarrow> state \<Rightarrow> real \<Rightarrow> py_error + state" where
  "rk4_step D time_step s t =
     ebind (D s t) (\<lambda>k1.
     ebind (D (axpy s (0.5 * time_step) k1) (t + 0.5 * time_step)) (\<lambda>k2.
     ebind (D (axpy s (0.5 * time_step) k2) (t + 0.5 * time_step)) (\<lambda>k3.
     ebind (D (axpy s time_step k3) (t + time_step)) (\<lambda>k4.
       Inr (axpy s (time_step / 6.0) (rk4_combine k1 k2 k3 k4))))))"

definition adaptive_step :: "real \<Rightarrow> real \<Rightarrow> real \<Rightarrow> real" where
  "adaptive_step min_time_step max_time_step current_vel =
     max min_time_step (min max_time_step (max_time_step * (1000 / max 100 current_vel)))"

text \<open>
  The clock of the loop is a double that the loop accumulates: \<open>time += time_step\<close> stores
  the exact sum rounded to the nearest double, a tie going to the even significand. A
  double has a significand of 53 bits, so a number \<open>x\<close> with \<open>2 ^ k \<le> \<bar>x\<bar> < 2 ^ (k + 1)\<close>
  is rounded to a multiple of \<open>2 ^ (k - 52)\<close>. The range of the exponent is taken as
  unbounded: the clock stays between the smallest step and 120 s plus the largest.
\<close>

definition round_half_even :: "real \<Rightarrow> int" where
  "round_half_even y =
     (let f = \<lfloor>y\<rfloor> in
        if y - of_int f < 1 / 2 then f
        else if 1 / 2 < y - of_int f then f + 1
        else if even f then f else f + 1)"

definition round_double :: "real \<Rightarrow> real" where
  "round_double x =
     (if x = 0 then 0
      else let ulp = 2 powr of_int (\<lfloor>log 2 \<bar>x\<bar>\<rfloor> - 52)
           in of_int (round_half_even (x / ulp)) * ulp)"

text \<open>
  \<open>while state[1] >= 0 and time < 120\<close>. The result is \<open>None\<close> when the loop never ends,
  \<open>Some (Inl e)\<close> when a stage raises, \<open>Some (Inr trajectory)\<close> when the loop returns.
\<close>

partial_function (option) rk4_loop ::
  "(state \<Rightarrow> real \<Rightarrow> py_error + state) \<Rightarrow> real \<Rightarrow> real \<Rightarrow> state \<Rightarrow> real \<Rightarrow> sample list \<Rightarrow>
   (py_error + sample list) option" where
  "rk4_loop D min_time_step max_time_step s time trajectory =
     (if state_y s \<ge> 0 \<and> time < 120 then
        (case rk4_step D (adaptive_step min_time_step max_time_step
                            (hypot (state_vx s) (state_vy s))) s time of
           Inl e \<Rightarrow> Some (Inl e)
         | Inr s' \<Rightarrow>
             rk4_loop D min_time_step max_time_step s'
               (round_double (time + adaptive_step min_time_step max_time_step
                                       (hypot (state_vx s) (state_vy s))))
               (trajectory @ [sample_of s time]))
      else Some (Inr trajectory))"

text \<open>
  The widgets \<open>_calculate_trajectory\<close> reads: the projectile type (\<open>type_combo\<close>, already
  lower-cased), the thrust and burn-time spin boxes, and the loaded custom drag curve.
\<close>

record Calculator =
  type_combo :: string
  thrust_input :: real
  burn_time_input :: real
  loaded_drag_curve :: "(real \<times> real) list option"

definition calculate_trajectory ::
  "Calculator \<Rightarrow> real \<Rightarrow> real \<Rightarrow> string \<Rightarrow> real \<Rightarrow> real \<Rightarrow> real \<Rightarrow> real \<Rightarrow> real \<Rightarrow> real \<Rightarrow>
   real \<Rightarrow> real \<Rightarrow> bool \<Rightarrow> real \<Rightarrow> real \<Rightarrow> real \<Rightarrow> (py_error + sample list) option" where
  "calculate_trajectory self m d dm v ang alt temp pres hum ws wa cor lat
     max_time_step min_time_step =
     (let projectile = Projectile_init m d dm v (type_combo self)
            (Some [(0, thrust_input self)])
            (if type_combo self = ''rocket'' then burn_time_input self else 0)
            (loaded_drag_curve self)
      in case Environment_init alt temp pres hum ws wa cor lat of
           Inl e \<Rightarrow> Some (Inl e)
         | Inr environment \<Rightarrow>
             let angle_rad = radians ang;
                 wind_x = wind_speed environment * cos (radians (wind_angle environment));
                 wind_y = wind_speed environment * sin (radians (wind_angle environment))
             in rk4_loop (derivative projectile environment angle_rad wind_x wind_y)
                  min_time_step max_time_step
                  (0, 0, v * cos angle_rad, v * sin angle_rad) 0 [])"

subsection \<open>The Euler integrator of the first calculator\<close>

record Projectile_v1 =
  v1_mass :: real
  v1_diameter :: real
  v1_drag_model :: string
  v1_drag_coeff :: real
  v1_velocity :: real
  v1_area :: real

text \<open>\<open>DRAG_MODELS[drag_model]['coeff']\<close>; an unknown model raises KeyError.\<close>

definition DRAG_MODELS_coeff :: "string \<Rightarrow> py_error + real" where
  "DRAG_MODELS_coeff dm =
     (case map_of [(''G1'', 0.519), (''G2'', 0.515), (''G5'', 0.485), (''G7'', 0.371),
                   (''Custom'', 0.47)] dm of
        None \<Rightarrow> Inl KeyError | Some c \<Rightarrow> Inr c)"

definition Projectile_v1_init ::
  "real \<Rightarrow> real \<Rightarrow> string \<Rightarrow> real \<Rightarrow> real \<Rightarrow> py_error + Projectile_v1" where
  "Projectile_v1_init m d dm dc v =
     ebind (if dm = ''Custom'' then Inr dc else DRAG_MODELS_coeff dm) (\<lambda>c.
       Inr \<lparr> v1_mass = m, v1_diameter = d, v1_drag_model = dm, v1_drag_coeff = c,
             v1_velocity = v, v1_area = pi * (d / 2)\<^sup>2 \<rparr>)"

text \<open>The body of \<open>while y >= 0\<close> up to the update of the state.\<close>

definition euler_step ::
  "Projectile_v1 \<Rightarrow> Environment \<Rightarrow> real \<Rightarrow> real \<Rightarrow> real \<Rightarrow> state \<Rightarrow> py_error + state" where
  "euler_step projectile environment wind_x wind_y time_step s =
     (case s of (x, y, vx, vy) \<Rightarrow>
      let v_rel_x = vx - wind_x;
          v_rel_y = vy - wind_y;
          v_rel = sqrt (v_rel_x\<^sup>2 + v_rel_y\<^sup>2);
          drag_force = 0.5 * air_density environment * v_rel\<^sup>2 * v1_drag_coeff projectile
                         * v1_area projectile
      in
      ebind (if v_rel > 0
             then ebind (py_div (drag_force * v_rel_x) (v1_mass projectile * v_rel))
                    (\<lambda>q. Inr (- q))
             else Inr 0) (\<lambda>ax0.
      ebind (if v_rel > 0
             then ebind (py_div (drag_force * v_rel_y) (v1_mass projectile * v_rel))
                    (\<lambda>q. Inr (- GRAVITY - q))
             else Inr (- GRAVITY)) (\<lambda>ay0.
      let coriolis_param = 2 * (7.292115 / 100000) * sin (radians (latitude environment));
          ax = (if coriolis environment then ax0 + coriolis_param * vy else ax0);
          ay = (if coriolis environment then ay0 - coriolis_param * vx else ay0);
          vx' = vx + ax * time_step;
          vy' = vy + ay * time_step;
          x' = x + vx' * time_step;
          y' = y + vy' * time_step
      in Inr (x', y', vx', vy'))))"

partial_function (option) euler_loop ::
  "Projectile_v1 \<Rightarrow> Environment \<Rightarrow> real \<Rightarrow> real \<Rightarrow> real \<Rightarrow> state \<Rightarrow> real \<Rightarrow> sample list \<Rightarrow>
   (py_error + sample list) option" where
  "euler_loop projectile environment wind_x wind_y time_step s time trajectory =
     (if state_y s \<ge> 0 then
        (case euler_step projectile environment wind_x wind_y time_step s of
           Inl e \<Rightarrow> Some (Inl e)
         | Inr s' \<Rightarrow>
             euler_loop projectile environment wind_x wind_y time_step s' (time + time_step)
               (if state_y s' \<ge> 0 then trajectory @ [sample_of s' (time + time_step)]
                else trajectory))
      else Some (Inr trajectory))"

definition calculate_trajectory_euler ::
  "real \<Rightarrow> real \<Rightarrow> Projectile_v1 \<Rightarrow> Environment \<Rightarrow> real \<Rightarrow> (py_error + sample list) option" where
  "calculate_trajectory_euler initial_velocity angle_degrees projectile environment time_step =
     (let angle_rad = radians angle_degrees;
          wind_x = wind_speed environment * cos (radians (wind_angle environment));
          wind_y = wind_speed environment * sin (radians (wind_angle environment))
      in euler_loop projectile environment wind_x wind_y time_step
           (0, 0, initial_velocity * cos angle_rad, initial_velocity * sin angle_rad) 0 [])"

text \<open>
  The public \<open>calculate_trajectory\<close> of the first calculator: it builds the projectile and
  the environment from the inputs and integrates with the default step 0.1.
\<close>

definition calculate_trajectory_v1 ::
  "real \<Rightarrow> real \<Rightarrow> string \<Rightarrow> real \<Rightarrow> real \<Rightarrow> real \<Rightarrow> real \<Rightarrow> real \<Rightarrow> real \<Rightarrow> real \<Rightarrow>
   real \<Rightarrow> real \<Rightarrow> bool \<Rightarrow> real \<Rightarrow> (py_error + sample list) option" where
  "calculate_trajectory_v1 m d dm dc v ang alt temp pres hum ws wa cor lat =
     (case Projectile_v1_init m d dm dc v of
        Inl e \<Rightarrow> Some (Inl e)
      | Inr projectile \<Rightarrow>
          (case Environment_init alt temp pres hum ws wa cor lat of
             Inl e \<Rightarrow> Some (Inl e)
           | Inr environment \<Rightarrow>
               calculate_trajectory_euler v ang projectile environment 0.1))"

text \<open>
  Linear interpolation between row \<open>i\<close> and row \<open>i + 1\<close> of the ISA table, as the
  specification words it: the fraction of the way from one anchor altitude to the next,
  applied to temperature and pressure.
\<close>

definition isa_segment :: "nat \<Rightarrow> real \<Rightarrow> real \<times> real" where
  "isa_segment i alt =
     (case ISA_TABLE ! i of (a0, t0, p0) \<Rightarrow> case ISA_TABLE ! Suc i of (a1, t1, p1) \<Rightarrow>
        (t0 + (alt - a0) / (a1 - a0) * (t1 - t0), p0 + (alt - a0) / (a1 - a0) * (p1 - p0)))"

subsection \<open>An input without drag\<close>

text \<open>
  A calculator set to the bullet type with the one-point custom drag curve [(0, 0)] loaded:
  with the drag model \<open>Custom\<close> the drag coefficient is 0 at every speed.
\<close>

definition zero_drag_bullet :: Calculator where
  "zero_drag_bullet =
     \<lparr> type_combo = ''bullet'', thrust_input = 0, burn_time_input = 0,
       loaded_drag_curve = Some [(0, 0)] \<rparr>"

section \<open>Properties\<close>

subsection \<open>Drag tables\<close>

text \<open>
  C4 (as the code has it). For every velocity each of the four standard drag tables (G1, G7,
  rocket, mortar) returns the coefficient of the first descending Mach threshold that
  \<open>v / 343\<close> strictly exceeds, and its default below all thresholds (0.25 for G1, 0.21 for
  G7, 0.25 for rocket, 0.40 for mortar). The comparison is strict, so at the breakpoint
  velocity \<open>343 * 1.5\<close> the Mach number 1.5 does not exceed the threshold 1.5 and the
  next bucket applies: G1 returns 0.33 and G7 returns 0.28.
\<close>

theorem drag_tables_bucketed:
  "G1 v = bucket G1_thresholds 0.25 (v / 343) \<and>
   G7 v = bucket G7_thresholds 0.21 (v / 343) \<and>
   DragModel_rocket v = bucket rocket_thresholds 0.25 (v / 343) \<and>
   DragModel_mortar v = bucket mortar_thresholds 0.40 (v / 343) \<and>
   G1 (343 * 1.5) = 0.33 \<and> G7 (343 * 1.5) = 0.28"
  by (simp add: G1_def G7_def DragModel_rocket_def DragModel_mortar_def
      G1_thresholds_def G7_thresholds_def rocket_thresholds_def mortar_thresholds_def
      SPEED_OF_SOUND_def Let_def)

text \<open>
  C4 as stated fails: at the breakpoint velocity the G1 table does not return 0.35, and the
  G7 table does not return 0.30.
\<close>

theorem G1_breakpoint_counterexample:
  "G1 (343 * 1.5) \<noteq> 0.35 \<and> G7 (343 * 1.5) \<noteq> 0.30"
  by (simp add: G1_def G7_def SPEED_OF_SOUND_def Let_def)

subsection \<open>Custom drag curves\<close>

lemma sorted_map_fst:
  fixes xs :: "(real \<times> real) list"
  shows "sorted xs \<Longrightarrow> sorted (map fst xs)"
  by (induction xs) (auto, force)

text \<open>
  On a curve ascending in velocity, with the query between the first and the last velocity,
  the loop returns the linear interpolation of two neighbouring points that bracket it.
\<close>

lemma interp_loop_bracket:
  "sorted (map fst (prev # ps)) \<Longrightarrow> fst prev \<le> x \<Longrightarrow> x < fst (last (prev # ps)) \<Longrightarrow>
   \<exists>i. Suc i < length (prev # ps) \<and> fst ((prev # ps) ! i) \<le> x \<and> x < fst ((prev # ps) ! Suc i) \<and>
       interp_loop x prev ps =
         Some (snd ((prev # ps) ! i) +
               (snd ((prev # ps) ! Suc i) - snd ((prev # ps) ! i)) * (x - fst ((prev # ps) ! i))
                 / (fst ((prev # ps) ! Suc i) - fst ((prev # ps) ! i)))"
proof (induction ps arbitrary: prev)
  case Nil
  then show ?case by simp
next
  case (Cons p ps)
  show ?case
  proof (cases "x < fst p")
    case True
    with Cons.prems(2) have "fst p \<noteq> fst prev" by auto
    with True Cons.prems(2) show ?thesis
      by (intro exI[of _ 0]) (simp add: linear_interpolate_def)
  next
    case False
    have s: "sorted (map fst (p # ps))" using Cons.prems(1) by simp
    have l: "x < fst (last (p # ps))" using Cons.prems(3) by simp
    from Cons.IH[OF s _ l] False obtain i where
      i: "Suc i < length (p # ps)" "fst ((p # ps) ! i) \<le> x" "x < fst ((p # ps) ! Suc i)"
         "interp_loop x p ps =
           Some (snd ((p # ps) ! i) +
               (snd ((p # ps) ! Suc i) - snd ((p # ps) ! i)) * (x - fst ((p # ps) ! i))
                 / (fst ((p # ps) ! Suc i) - fst ((p # ps) ! i)))"
      by auto
    show ?thesis
      using i False by (intro exI[of _ "Suc i"]) simp
  qed
qed

lemma sorted_curve_shape:
  fixes curve :: "(real \<times> real) list"
  assumes "2 \<le> length curve"
  shows "sort curve = hd (sort curve) # tl (sort curve) \<and> tl (sort curve) \<noteq> []"
proof -
  have "length (sort curve) = length curve" by simp
  with assms show ?thesis by (cases "sort curve") (auto simp: Suc_le_eq)
qed

text \<open>
  \<open>DragModel.custom\<close> (that is, \<open>interpolate_curve\<close>) returns 0 for an empty curve and
  the single Cd of a one-point curve. On a curve of two or more points it works on the
  pairs sorted ascending by velocity (the same points, reordered) and applies three rules in
  this order: at or below the first velocity it returns the first point's Cd; otherwise, at
  or above the last velocity it returns the last point's Cd; otherwise it returns the linear
  interpolation of two neighbouring sorted points whose velocities bracket the query.
\<close>

lemma DragModel_custom_rules:
  "DragModel_custom v [] = 0 \<and>
   DragModel_custom v [(x0, c0)] = c0 \<and>
   (2 \<le> length curve \<longrightarrow>
      sorted (map fst (sort curve)) \<and> mset (sort curve) = mset curve \<and>
      (v \<le> fst (hd (sort curve)) \<longrightarrow> DragModel_custom v curve = snd (hd (sort curve))) \<and>
      (fst (hd (sort curve)) < v \<and> fst (last (sort curve)) \<le> v \<longrightarrow>
         DragModel_custom v curve = snd (last (sort curve))) \<and>
      (fst (hd (sort curve)) < v \<and> v < fst (last (sort curve)) \<longrightarrow>
         (\<exists>i. Suc i < length curve \<and>
              fst (sort curve ! i) \<le> v \<and> v < fst (sort curve ! Suc i) \<and>
              DragModel_custom v curve =
                snd (sort curve ! i) +
                (snd (sort curve ! Suc i) - snd (sort curve ! i)) * (v - fst (sort curve ! i))
                  / (fst (sort curve ! Suc i) - fst (sort curve ! i))))) \<and>
   DragModel_custom 200 [(100, 0.3), (300, 0.5)] = 0.4 \<and>
   DragModel_custom 50 [(100, 0.3), (300, 0.5)] = 0.3 \<and>
   DragModel_custom 400 [(100, 0.3), (300, 0.5)] = 0.5"
proof -
  have small: "DragModel_custom v [] = 0" "DragModel_custom v [(x0, c0)] = c0"
    by (simp_all add: DragModel_custom_def interpolate_curve_def)
  have ex: "DragModel_custom 200 [(100, 0.3), (300, 0.5)] = 0.4"
    "DragModel_custom 50 [(100, 0.3), (300, 0.5)] = 0.3"
    "DragModel_custom 400 [(100, 0.3), (300, 0.5)] = 0.5"
    by (simp_all add: DragModel_custom_def interpolate_curve_def linear_interpolate_def)
  have big: ?thesis if len: "2 \<le> length curve"
  proof -
    let ?c = "sort curve"
    have shape: "?c = hd ?c # tl ?c" "tl ?c \<noteq> []"
      using sorted_curve_shape[OF len] by simp_all
    have srt: "sorted (map fst ?c)" by (rule sorted_map_fst) simp
    have unf: "DragModel_custom v curve =
        (if v \<le> fst (hd ?c) then snd (hd ?c)
         else if fst (last ?c) \<le> v then snd (last ?c)
         else (case interp_loop v (hd ?c) (tl ?c) of Some r \<Rightarrow> r | None \<Rightarrow> snd (last ?c)))"
      using len by (auto simp: DragModel_custom_def interpolate_curve_def Let_def)
    have mid: "\<exists>i. Suc i < length curve \<and>
              fst (?c ! i) \<le> v \<and> v < fst (?c ! Suc i) \<and>
              DragModel_custom v curve =
                snd (?c ! i) + (snd (?c ! Suc i) - snd (?c ! i)) * (v - fst (?c ! i))
                  / (fst (?c ! Suc i) - fst (?c ! i))"
      if lo: "fst (hd ?c) < v" and hi: "v < fst (last ?c)"
    proof -
      have s': "sorted (map fst (hd ?c # tl ?c))" using srt shape(1) by simp
      have l': "v < fst (last (hd ?c # tl ?c))" using hi shape(1) by simp
      from interp_loop_bracket[OF s' _ l'] lo obtain i where
        i: "Suc i < length (hd ?c # tl ?c)"
           "fst ((hd ?c # tl ?c) ! i) \<le> v" "v < fst ((hd ?c # tl ?c) ! Suc i)"
           "interp_loop v (hd ?c) (tl ?c) =
              Some (snd ((hd ?c # tl ?c) ! i) +
               (snd ((hd ?c # tl ?c) ! Suc i) - snd ((hd ?c # tl ?c) ! i))
                 * (v - fst ((hd ?c # tl ?c) ! i))
                 / (fst ((hd ?c # tl ?c) ! Suc i) - fst ((hd ?c # tl ?c) ! i)))"
        by auto
      have eq: "hd ?c # tl ?c = ?c" using shape(1) by simp
      show ?thesis
        using i lo hi unfolding eq by (intro exI[of _ i]) (simp add: unf)
    qed
    show ?thesis
      using small ex srt mid unf by auto
  qed
  show ?thesis
  proof (cases "2 \<le> length curve")
    case True
    then show ?thesis by (rule big)
  next
    case False
    then show ?thesis using small ex by simp
  qed
qed

text \<open>
  \<open>Projectile.drag_coefficient\<close> hands every custom curve that is not empty to
  \<open>DragModel.custom\<close>; for a missing or empty curve it returns its default 0.3 without
  calling it.
\<close>

lemma drag_coefficient_custom_dispatch:
  "drag_model p = ''Custom'' \<Longrightarrow> custom_drag_curve p = Some curve \<Longrightarrow> curve \<noteq> [] \<Longrightarrow>
   drag_coefficient p v = DragModel_custom v curve"
  by (simp add: drag_coefficient_def)

lemma drag_coefficient_custom_empty:
  "drag_model p = ''Custom'' \<Longrightarrow> custom_drag_curve p = None \<or> custom_drag_curve p = Some [] \<Longrightarrow>
   drag_coefficient p v = 0.3"
  by (auto simp: drag_coefficient_def)

text \<open>
  C5 (as the code has it). For a projectile with drag model \<open>Custom\<close>,
  \<open>Projectile.drag_coefficient\<close> returns the default 0.3 when the custom curve is missing
  or empty (\<open>DragModel.custom\<close> alone would return 0 for an empty curve, but is not called
  then), and the single Cd of a one-point curve. On a curve of two or more points it works
  on the pairs sorted ascending by velocity (the same points, reordered) and applies three
  rules in this order: at or below the first velocity it returns the first point's Cd;
  otherwise, at or above the last velocity it returns the last point's Cd; otherwise it
  returns the linear interpolation of two neighbouring sorted points whose velocities
  bracket the query. For the curve [(100, 0.3), (300, 0.5)] the values at 200, 50 and 400
  are 0.4, 0.3 and 0.5.
\<close>

theorem drag_coefficient_custom_curve:
  assumes "drag_model p = ''Custom''"
  shows
  "(custom_drag_curve p = None \<or> custom_drag_curve p = Some [] \<longrightarrow> drag_coefficient p v = 0.3) \<and>
   DragModel_custom v [] = 0 \<and>
   (custom_drag_curve p = Some [(x0, c0)] \<longrightarrow> drag_coefficient p v = c0) \<and>
   (custom_drag_curve p = Some curve \<and> 2 \<le> length curve \<longrightarrow>
      sorted (map fst (sort curve)) \<and> mset (sort curve) = mset curve \<and>
      (v \<le> fst (hd (sort curve)) \<longrightarrow> drag_coefficient p v = snd (hd (sort curve))) \<and>
      (fst (hd (sort curve)) < v \<and> fst (last (sort curve)) \<le> v \<longrightarrow>
         drag_coefficient p v = snd (last (sort curve))) \<and>
      (fst (hd (sort curve)) < v \<and> v < fst (last (sort curve)) \<longrightarrow>
         (\<exists>i. Suc i < length curve \<and>
              fst (sort curve ! i) \<le> v \<and> v < fst (sort curve ! Suc i) \<and>
              drag_coefficient p v =
                snd (sort curve ! i) +
                (snd (sort curve ! Suc i) - snd (sort curve ! i)) * (v - fst (sort curve ! i))
                  / (fst (sort curve ! Suc i) - fst (sort curve ! i))))) \<and>
   (custom_drag_curve p = Some [(100, 0.3), (300, 0.5)] \<longrightarrow>
      drag_coefficient p 200 = 0.4 \<and> drag_coefficient p 50 = 0.3 \<and> drag_coefficient p 400 = 0.5)"
proof -
  have empty: "drag_coefficient p v = 0.3"
    if "custom_drag_curve p = None \<or> custom_drag_curve p = Some []"
    using drag_coefficient_custom_empty[OF assms that] .
  have one: "drag_coefficient p v = c0" if c: "custom_drag_curve p = Some [(x0, c0)]"
    using drag_coefficient_custom_dispatch[OF assms c, of v]
      DragModel_custom_rules[of v x0 c0 "[]"] by simp
  have many: "sorted (map fst (sort curve)) \<and> mset (sort curve) = mset curve \<and>
      (v \<le> fst (hd (sort curve)) \<longrightarrow> drag_coefficient p v = snd (hd (sort curve))) \<and>
      (fst (hd (sort curve)) < v \<and> fst (last (sort curve)) \<le> v \<longrightarrow>
         drag_coefficient p v = snd (last (sort curve))) \<and>
      (fst (hd (sort curve)) < v \<and> v < fst (last (sort curve)) \<longrightarrow>
         (\<exists>i. Suc i < length curve \<and>
              fst (sort curve ! i) \<le> v \<and> v < fst (sort curve ! Suc i) \<and>
              drag_coefficient p v =
                snd (sort curve ! i) +
                (snd (sort curve ! Suc i) - snd (sort curve ! i)) * (v - fst (sort curve ! i))
                  / (fst (sort curve ! Suc i) - fst (sort curve ! i))))"
    if c: "custom_drag_curve p = Some curve" and len: "2 \<le> length curve"
  proof -
    from len have ne: "curve \<noteq> []" by auto
    have d: "drag_coefficient p v = DragModel_custom v curve"
      using drag_coefficient_custom_dispatch[OF assms c ne] .
    show ?thesis
      unfolding d using DragModel_custom_rules[of v x0 c0 curve] len by blast
  qed
  have ex: "drag_coefficient p 200 = 0.4 \<and> drag_coefficient p 50 = 0.3 \<and> drag_coefficient p 400 = 0.5"
    if c: "custom_drag_curve p = Some [(100, 0.3), (300, 0.5)]"
  proof -
    have d: "drag_coefficient p w = DragModel_custom w [(100, 0.3), (300, 0.5)]" for w
      using drag_coefficient_custom_dispatch[OF assms c] by simp
    show ?thesis
      unfolding d using DragModel_custom_rules[of v x0 c0 curve] by blast
  qed
  have z: "DragModel_custom v [] = 0"
    using DragModel_custom_rules[of v x0 c0 curve] by blast
  from empty one many ex z show ?thesis by blast
qed

text \<open>
  A bullet with the unsorted curve [(300, 0.5), (100, 0.3)], queried at 50, 400 and 200; the
  same bullet with the single point (100, 0.3), and with an empty curve.
\<close>

theorem drag_coefficient_custom_curve_witness:
  "drag_model (Projectile_init 0.01 0.00762 ''Custom'' 800 ''bullet'' None 0
     (Some [(300, 0.5), (100, 0.3)])) = ''Custom'' \<and>
   custom_drag_curve (Projectile_init 0.01 0.00762 ''Custom'' 800 ''bullet'' None 0
     (Some [(300, 0.5), (100, 0.3)])) = Some [(300, 0.5), (100, 0.3)] \<and>
   2 \<le> length [(300::real, 0.5::real), (100, 0.3)] \<and>
   (50::real) \<le> fst (hd (sort [(300::real, 0.5::real), (100, 0.3)])) \<and>
   drag_coefficient (Projectile_init 0.01 0.00762 ''Custom'' 800 ''bullet'' None 0
     (Some [(300, 0.5), (100, 0.3)])) 50 = 0.3 \<and>
   fst (last (sort [(300::real, 0.5::real), (100, 0.3)])) \<le> 400 \<and>
   drag_coefficient (Projectile_init 0.01 0.00762 ''Custom'' 800 ''bullet'' None 0
     (Some [(300, 0.5), (100, 0.3)])) 400 = 0.5 \<and>
   fst (hd (sort [(300::real, 0.5::real), (100, 0.3)])) < 200 \<and>
   200 < fst (last (sort [(300::real, 0.5::real), (100, 0.3)])) \<and>
   drag_coefficient (Projectile_init 0.01 0.00762 ''Custom'' 800 ''bullet'' None 0
     (Some [(300, 0.5), (100, 0.3)])) 200 = 0.4 \<and>
   drag_coefficient (Projectile_init 0.01 0.00762 ''Custom'' 800 ''bullet'' None 0
     (Some [(100, 0.3)])) 200 = 0.3 \<and>
   drag_coefficient (Projectile_init 0.01 0.00762 ''Custom'' 800 ''bullet'' None 0
     (Some [])) 200 = 0.3"
  using
    drag_coefficient_custom_curve[of "Projectile_init 0.01 0.00762 ''Custom'' 800 ''bullet'' None 0
       (Some [(300, 0.5), (100, 0.3)])" 50 0 0 "[(300, 0.5), (100, 0.3)]"]
    drag_coefficient_custom_curve[of "Projectile_init 0.01 0.00762 ''Custom'' 800 ''bullet'' None 0
       (Some [(300, 0.5), (100, 0.3)])" 400 0 0 "[(300, 0.5), (100, 0.3)]"]
    drag_coefficient_custom_curve[of "Projectile_init 0.01 0.00762 ''Custom'' 800 ''bullet'' None 0
       (Some [(300, 0.5), (100, 0.3)])" 200 0 0 "[(300, 0.5), (100, 0.3)]"]
    drag_coefficient_custom_curve[of "Projectile_init 0.01 0.00762 ''Custom'' 800 ''bullet'' None 0
       (Some [(100, 0.3)])" 200 100 "0.3" "[]"]
    drag_coefficient_custom_curve[of "Projectile_init 0.01 0.00762 ''Custom'' 800 ''bullet'' None 0
       (Some [])" 200 0 0 "[]"]
  by (simp add: Projectile_init_def drag_coefficient_def DragModel_custom_def
      interpolate_curve_def linear_interpolate_def)

text \<open>
  C5 as stated fails in two places. With an empty custom curve the coefficient is the
  default 0.3, not 0. On the curve [(100, 0.3), (100, 0.5)] the query 100 is at or above the
  last velocity, yet the coefficient is the first point's 0.3, not the last point's 0.5: the
  test against the first velocity comes first.
\<close>

theorem custom_curve_counterexample:
  "drag_coefficient (Projectile_init 0.01 0.00762 ''Custom'' 800 ''bullet'' None 0 (Some [])) 200
     = 0.3 \<and>
   drag_coefficient (Projectile_init 0.01 0.00762 ''Custom'' 800 ''bullet'' None 0 (Some [])) 200
     \<noteq> 0 \<and>
   fst (last (sort [(100::real, 0.3::real), (100, 0.5)])) \<le> 100 \<and>
   snd (last (sort [(100::real, 0.3::real), (100, 0.5)])) = 0.5 \<and>
   drag_coefficient (Projectile_init 0.01 0.00762 ''Custom'' 800 ''bullet'' None 0
     (Some [(100, 0.3), (100, 0.5)])) 100 = 0.3 \<and>
   drag_coefficient (Projectile_init 0.01 0.00762 ''Custom'' 800 ''bullet'' None 0
     (Some [(100, 0.3), (100, 0.5)])) 100 \<noteq> 0.5"
  by (simp add: Projectile_init_def drag_coefficient_def DragModel_custom_def
      interpolate_curve_def)

subsection \<open>The ISA table\<close>

lemma isa_interp_top: "10000 \<le> alt \<Longrightarrow> isa_interp alt = (-50, 265)"
  by (simp add: isa_interp_def ISA_TABLE_def)

lemma isa_interp_below: "alt < 1000 \<Longrightarrow> isa_interp alt = isa_segment 0 alt"
  by (simp add: isa_interp_def ISA_TABLE_def isa_segment_def)

lemma isa_interp_segment:
  assumes "k < 10" "1000 * real k \<le> alt" "alt < 1000 * real (Suc k)"
  shows "isa_interp alt = isa_segment k alt"
proof -
  from assms(1) consider "k = 0" | "k = 1" | "k = 2" | "k = 3" | "k = 4" | "k = 5"
    | "k = 6" | "k = 7" | "k = 8" | "k = 9" by atomize_elim arith
  then show ?thesis
    using assms(2,3)
    by cases (simp_all add: isa_interp_def ISA_TABLE_def isa_segment_def)
qed

lemma isa_anchor: "k < 11 \<Longrightarrow> fst (ISA_TABLE ! k) = 1000 * real k"
proof -
  assume "k < 11"
  then consider "k = 0" | "k = 1" | "k = 2" | "k = 3" | "k = 4" | "k = 5"
    | "k = 6" | "k = 7" | "k = 8" | "k = 9" | "k = 10" by atomize_elim arith
  then show ?thesis by cases (simp_all add: ISA_TABLE_def)
qed

text \<open>
  C7 (as the code has it). \<open>isa_interp\<close> returns the last row's temperature and pressure
  for every altitude at or above 10000 m (clamped at the upper end). For an altitude from 0
  up to 10000 m it returns the linear interpolation between the two neighbouring rows whose
  altitudes bracket it. Below 0 m nothing is clamped: the first segment (0 m to 1000 m) is
  extended linearly, so temperature and pressure rise above the sea-level row.
\<close>

theorem isa_interp_piecewise:
  "(10000 \<le> alt \<longrightarrow> isa_interp alt = (snd (last ISA_TABLE))) \<and>
   (0 \<le> alt \<and> alt < 10000 \<longrightarrow>
      (\<exists>i. Suc i < length ISA_TABLE \<and> fst (ISA_TABLE ! i) \<le> alt \<and> alt < fst (ISA_TABLE ! Suc i) \<and>
           isa_interp alt = isa_segment i alt)) \<and>
   (alt < 0 \<longrightarrow> isa_interp alt = isa_segment 0 alt \<and>
      isa_interp alt = (15 + alt / 1000 * (8.5 - 15), 1013.25 + alt / 1000 * (898.76 - 1013.25)))"
proof (intro conjI impI)
  assume "10000 \<le> alt"
  then show "isa_interp alt = snd (last ISA_TABLE)"
    by (simp add: isa_interp_top) (simp add: ISA_TABLE_def)
next
  assume a: "0 \<le> alt \<and> alt < 10000"
  define k where "k = nat \<lfloor>alt / 1000\<rfloor>"
  have f0: "0 \<le> \<lfloor>alt / 1000\<rfloor>" using a by simp
  have rk: "real k = of_int \<lfloor>alt / 1000\<rfloor>" using f0 by (simp add: k_def)
  have lo: "1000 * real k \<le> alt" unfolding rk by linarith
  have hi: "alt < 1000 * real (Suc k)" using rk by simp linarith
  have "real k < 10" using lo a by linarith
  then have k10: "k < 10" by simp
  have "isa_interp alt = isa_segment k alt" by (rule isa_interp_segment[OF k10 lo hi])
  moreover have "fst (ISA_TABLE ! k) \<le> alt" using isa_anchor[of k] k10 lo by simp
  moreover have "alt < fst (ISA_TABLE ! Suc k)" using isa_anchor[of "Suc k"] k10 hi by simp
  moreover have "Suc k < length ISA_TABLE" using k10 by (simp add: ISA_TABLE_def)
  ultimately show "\<exists>i. Suc i < length ISA_TABLE \<and> fst (ISA_TABLE ! i) \<le> alt \<and>
      alt < fst (ISA_TABLE ! Suc i) \<and> isa_interp alt = isa_segment i alt"
    by blast
next
  assume "alt < 0"
  then show "isa_interp alt = isa_segment 0 alt" by (simp add: isa_interp_below)
next
  assume "alt < 0"
  then show "isa_interp alt = (15 + alt / 1000 * (8.5 - 15), 1013.25 + alt / 1000 * (898.76 - 1013.25))"
    by (simp add: isa_interp_below) (simp add: isa_segment_def ISA_TABLE_def)
qed

text \<open>The three ranges at 12000 m, 2500 m and -1000 m.\<close>

theorem isa_interp_piecewise_witness:
  "isa_interp 12000 = (-50, 265) \<and> isa_interp 2500 = (-1.25, 748.05) \<and>
   isa_interp (-1000) = (21.5, 1127.74)"
  using isa_interp_piecewise[of 12000] isa_interp_piecewise[of 2500] isa_interp_piecewise[of "-1000"]
  by (simp add: isa_interp_def ISA_TABLE_def)

text \<open>
  C7 as stated fails below the table: at -1000 m the result is not the sea-level row
  (15 Celsius, 1013.25 hPa).
\<close>

theorem isa_interp_below_counterexample:
  "isa_interp (-1000) \<noteq> (15, 1013.25)"
  by (simp add: isa_interp_def ISA_TABLE_def)

subsection \<open>Air density\<close>


lemma density_formula_value:
  assumes "- 237.3 < temp" "0 < pres"
  shows "density_formula temp pres hum alt =
     Inr ((pres * 100) / (287.058 * (temp + 273.15)) *
          (1 - (0.378 * (6.1078 * (10 powr (7.5 * temp / (temp + 237.3))) * hum / 100)) / (pres * 100))
          * exp (- alt / 10000))"
  using assms by (simp add: density_formula_def py_div_def ebind_def Let_def)

lemma density_formula_sign:
  assumes "- 237.3 < temp" "0 < pres"
  shows "\<exists>rho. density_formula temp pres hum alt = Inr rho \<and>
     (0 < rho \<longleftrightarrow> 0.378 * (6.1078 * (10 powr (7.5 * temp / (temp + 237.3))) * hum / 100) < pres * 100)"
proof -
  let ?vp = "6.1078 * (10 powr (7.5 * temp / (temp + 237.3))) * hum / 100"
  let ?a = "(pres * 100) / (287.058 * (temp + 273.15))"
  let ?b = "(0.378 * ?vp) / (pres * 100)"
  define A where "A = ?a"
  define B where "B = ?b"
  define E where "E = exp (- alt / 10000)"
  have a: "0 < A" using assms by (simp add: A_def)
  have e: "0 < E" by (simp add: E_def)
  have b: "(0 < 1 - B) = (0.378 * ?vp < pres * 100)"
    using assms(2) by (simp add: B_def field_simps)
  have "(0 < A * (1 - B) * E) = (0 < 1 - B)"
    using a e by (simp add: zero_less_mult_iff)
  with b have "(0 < A * (1 - B) * E) = (0.378 * ?vp < pres * 100)" by simp
  moreover have "density_formula temp pres hum alt = Inr (A * (1 - B) * E)"
    unfolding A_def B_def E_def by (rule density_formula_value[OF assms])
  ultimately show ?thesis by blast
qed

lemma vapour_bound:
  fixes temp hum :: real
  assumes "- 50 \<le> temp" "temp \<le> 60" "0 \<le> hum" "hum \<le> 100"
  shows "0.378 * (6.1078 * (10 powr (7.5 * temp / (temp + 237.3))) * hum / 100) < 80000"
proof -
  let ?pw = "10 powr (7.5 * temp / (temp + 237.3))"
  have d: "0 < temp + 237.3" using assms(1) by simp
  have "7.5 * temp / (temp + 237.3) \<le> 2"
    using d assms(2) by (simp add: field_simps)
  then have "?pw \<le> 10 powr 2" by (intro powr_mono) simp_all
  then have pw: "?pw \<le> 100" by simp
  have pw0: "0 \<le> ?pw" by simp
  have "?pw * hum \<le> 100 * 100"
    using pw pw0 assms(3,4) by (intro mult_mono) simp_all
  then show ?thesis by simp
qed

text \<open>
  C6 (as the code has it). \<open>Environment.calculate_air_density\<close> applies no floor. For a
  temperature above -237.3 Celsius and a positive pressure it returns the plain formula, and
  this value, which the constructor stores as \<open>air_density\<close>, is strictly positive exactly
  when 0.378 times the vapour pressure is below the pressure in Pa. That holds for every
  input in the ranges of the calculator's input fields (temperature -50 to 60 Celsius,
  pressure 800 to 1100 hPa, humidity 0 to 100 percent), at any altitude. Beta 4's method is
  the same formula when dynamic air is off.
\<close>

theorem air_density_sign:
  "(- 237.3 < temp \<and> 0 < pres \<longrightarrow>
     (\<exists>rho. calculate_air_density alt temp pres hum = Inr rho \<and>
        (0 < rho \<longleftrightarrow>
           0.378 * (6.1078 * (10 powr (7.5 * temp / (temp + 237.3))) * hum / 100) < pres * 100) \<and>
        map_sum id air_density (Environment_init alt temp pres hum ws wa cor lat) = Inr rho \<and>
        calculate_air_density_b4 False temp pres hum alt = Inr rho)) \<and>
   (- 50 \<le> temp \<and> temp \<le> 60 \<and> 800 \<le> pres \<and> pres \<le> 1100 \<and> 0 \<le> hum \<and> hum \<le> 100 \<longrightarrow>
     (\<exists>rho. calculate_air_density alt temp pres hum = Inr rho \<and> 0 < rho))"
proof (intro conjI impI)
  assume a: "- 237.3 < temp \<and> 0 < pres"
  then obtain rho where r: "density_formula temp pres hum alt = Inr rho"
     "(0 < rho \<longleftrightarrow>
           0.378 * (6.1078 * (10 powr (7.5 * temp / (temp + 237.3))) * hum / 100) < pres * 100)"
    using density_formula_sign[of temp pres hum alt] by blast
  show "\<exists>rho. calculate_air_density alt temp pres hum = Inr rho \<and>
        (0 < rho \<longleftrightarrow>
           0.378 * (6.1078 * (10 powr (7.5 * temp / (temp + 237.3))) * hum / 100) < pres * 100) \<and>
        map_sum id air_density (Environment_init alt temp pres hum ws wa cor lat) = Inr rho \<and>
        calculate_air_density_b4 False temp pres hum alt = Inr rho"
    using r by (intro exI[of _ rho])
      (simp add: calculate_air_density_def Environment_init_def ebind_def
        calculate_air_density_b4_def)
next
  assume a: "- 50 \<le> temp \<and> temp \<le> 60 \<and> 800 \<le> pres \<and> pres \<le> 1100 \<and> 0 \<le> hum \<and> hum \<le> 100"
  then have t: "- 237.3 < temp" and p: "0 < pres" by simp_all
  from density_formula_sign[OF t p, of hum alt] obtain rho where
    r: "density_formula temp pres hum alt = Inr rho"
     "(0 < rho \<longleftrightarrow>
           0.378 * (6.1078 * (10 powr (7.5 * temp / (temp + 237.3))) * hum / 100) < pres * 100)"
    by blast
  have "0.378 * (6.1078 * (10 powr (7.5 * temp / (temp + 237.3))) * hum / 100) < 80000"
    using a by (intro vapour_bound) simp_all
  moreover have "80000 \<le> pres * 100" using a by simp
  ultimately have "0 < rho" using r(2) by linarith
  with r(1) show "\<exists>rho. calculate_air_density alt temp pres hum = Inr rho \<and> 0 < rho"
    by (simp add: calculate_air_density_def)
qed

text \<open>The standard sea-level pressure at 0 Celsius and 50 percent humidity.\<close>

theorem air_density_sign_witness:
  "(\<exists>rho. calculate_air_density 0 0 1013.25 50 = Inr rho \<and> 0 < rho)"
  using air_density_sign[of 0 "1013.25" 0 50] by simp

text \<open>
  C6 as stated fails: at 0 Celsius, 0.01 hPa and 100 percent humidity the computed (and
  stored) density is negative.
\<close>

theorem air_density_negative_counterexample:
  "calculate_air_density 0 0 0.01 100 = Inr (- 1.3087484 / 78409.8927) \<and>
   (- 1.3087484 / 78409.8927 :: real) < 0"
  by (simp add: calculate_air_density_def density_formula_def py_div_def ebind_def Let_def)

subsection \<open>Mass and thrust of a single-stage projectile\<close>

text \<open>
  The constructor sets \<open>initial_mass = mass\<close>, so the depletion formula gives back the
  constructor mass wherever its quotient \<open>time / burn_time\<close> is defined. It is not defined
  for a rocket with burn time 0 at a time at or before 0: there the division raises.
\<close>

lemma get_mass_single_stage:
  "get_mass (Projectile_init m d dm v ptype tc bt cdc) t =
     (if ptype = ''rocket'' \<and> bt = 0 \<and> t \<le> 0 then Inl ZeroDivisionError else Inr m)"
  by (simp add: get_mass_def Projectile_init_def py_div_def ebind_def)

text \<open>
  C9 at the failing input: a rocket built with burn time 0 (the lower end of the burn-time
  input field) asked for its mass at time 0 raises ZeroDivisionError instead of returning
  the constructor mass.
\<close>

theorem get_mass_zero_burn_time_raises:
  "get_mass (Projectile_init 0.01 0.00762 ''G7'' 800 ''rocket'' (Some [(0, 1000)]) 0 None) 0
     = Inl ZeroDivisionError"
  by (simp add: get_mass_single_stage)

text \<open>The same rocket with burn time 0 and with burn time 2 s, both asked at time 0.\<close>

theorem get_mass_zero_burn_time_raises_witness:
  "get_mass (Projectile_init 0.01 0.00762 ''G7'' 800 ''rocket'' (Some [(0, 1000)]) 0 None) 0
     = Inl ZeroDivisionError \<and>
   get_mass (Projectile_init 0.01 0.00762 ''G7'' 800 ''rocket'' (Some [(0, 1000)]) 2 None) 0
     = Inr 0.01"
  using get_mass_zero_burn_time_raises by (simp add: get_mass_single_stage)

text \<open>
  The unguarded \<open>get_thrust\<close> of v344.py raises IndexError on the empty thrust curve of a
  default projectile; the guarded one of the ultimate edition returns 0.
\<close>

lemma get_thrust_v344_empty_curve_raises:
  "get_thrust_v344 (Projectile_init 0.01 0.01 ''G7'' 800 ''bullet'' None 0 None) 0 = Inl IndexError"
  by (simp add: get_thrust_v344_def Projectile_init_def dict_keys_def)

lemma get_thrust_empty_curve:
  "get_thrust (Projectile_init 0.01 0.01 ''G7'' 800 ''bullet'' None 0 None) 0 = Inr 0"
  by (simp add: get_thrust_def Projectile_init_def dict_keys_def)

lemma Environment_init_standard:
  "- 237.3 < temp \<Longrightarrow> 0 < pres \<Longrightarrow>
   \<exists>rho. Environment_init alt temp pres hum ws wa cor lat =
     Inr \<lparr> altitude = alt, temperature = temp, pressure = pres, humidity = hum,
           wind_speed = ws, wind_angle = wa, coriolis = cor, latitude = lat,
           air_density = rho \<rparr>"
  by (simp add: Environment_init_def calculate_air_density_def density_formula_def py_div_def
      ebind_def Let_def)

lemma derivative_rocket_zero_burn:
  assumes "projectile_type p = ''rocket''" "burn_time p = 0" "t \<le> 0"
    "0 < hypot (vx - wx) (vy - wy)"
  shows "derivative p env ang wx wy (x, y, vx, vy) t = Inl ZeroDivisionError"
  using assms by (simp add: derivative_def get_mass_def py_div_def ebind_def Let_def)

text \<open>
  C2 at the failing input: the integrator called for a rocket with the burn-time field at 0
  (mass 10 g, diameter 7.62 mm, G7, 800 m/s, level launch, standard atmosphere, no wind)
  raises ZeroDivisionError in the first derivative evaluation instead of returning a
  trajectory.
\<close>

theorem rocket_zero_burn_time_raises:
  "calculate_trajectory
     \<lparr> type_combo = ''rocket'', thrust_input = 1000, burn_time_input = 0,
       loaded_drag_curve = None \<rparr>
     0.01 0.00762 ''G7'' 800 0 0 15 1013.25 50 0 0 False 45 0.1 0.001
   = Some (Inl ZeroDivisionError)"
proof -
  obtain rho where e: "Environment_init 0 15 1013.25 50 0 0 False 45 =
     Inr \<lparr> altitude = 0, temperature = 15, pressure = 1013.25, humidity = 50,
           wind_speed = 0, wind_angle = 0, coriolis = False, latitude = 45,
           air_density = rho \<rparr>"
    using Environment_init_standard[of 15 "1013.25" 0 50 0 0 False 45] by auto
  show ?thesis
    unfolding calculate_trajectory_def e
    apply (simp add: Let_def radians_def)
    apply (subst rk4_loop.simps)
    apply (simp add: state_y_def rk4_step_def)
    apply (subst derivative_rocket_zero_burn)
    apply (simp_all add: Projectile_init_def hypot_def ebind_def)
    done
qed

subsection \<open>Thrust in the derivative\<close>

lemma drag_coefficient_type_update [simp]:
  "drag_coefficient (p\<lparr>projectile_type := ty\<rparr>) v = drag_coefficient p v"
  "drag_coefficient (p\<lparr>thrust_curve := tc\<rparr>) v = drag_coefficient p v"
  "drag_coefficient (p\<lparr>burn_time := bt\<rparr>) v = drag_coefficient p v"
  by (simp_all add: drag_coefficient_def)

lemma hypot_axis [simp]: "hypot a 0 = \<bar>a\<bar>" "hypot 0 a = \<bar>a\<bar>"
  by (simp_all add: hypot_def)


text \<open>
  C10. For a projectile whose type is not the string \<open>rocket\<close> (a mortar or a bullet, say)
  \<open>get_mass\<close> returns the constant mass at every time, and the derivative does not depend
  on the thrust curve or the burn time: it equals the derivative of the same projectile
  with any other thrust curve and burn time, the empty curve and burn time 0 among them,
  so no thrust acceleration is added.
\<close>

theorem non_rocket_no_thrust:
  "projectile_type p \<noteq> ''rocket'' \<Longrightarrow>
     get_mass p t = Inr (mass p) \<and>
     derivative p env ang wx wy s t =
       derivative (p\<lparr>thrust_curve := tc, burn_time := bt\<rparr>) env ang wx wy s t"
  by (cases s) (simp add: derivative_def get_mass_def Let_def)

text \<open>A mortar with a thrust curve and burn time 2 s, against the same mortar without.\<close>

theorem non_rocket_no_thrust_witness:
  "projectile_type (Projectile_init 3.2 0.082 ''mortar'' 150 ''mortar'' (Some [(0, 1000)]) 2 None)
     \<noteq> ''rocket'' \<and>
   get_mass (Projectile_init 3.2 0.082 ''mortar'' 150 ''mortar'' (Some [(0, 1000)]) 2 None) 1
     = Inr 3.2 \<and>
   derivative (Projectile_init 3.2 0.082 ''mortar'' 150 ''mortar'' (Some [(0, 1000)]) 2 None)
     \<lparr> altitude = 0, temperature = 15, pressure = 1013.25, humidity = 50, wind_speed = 0,
       wind_angle = 0, coriolis = False, latitude = 45, air_density = 1.225 \<rparr>
     0 0 0 (0, 0, 100, 0) 1
   = derivative (Projectile_init 3.2 0.082 ''mortar'' 150 ''mortar'' None 0 None)
     \<lparr> altitude = 0, temperature = 15, pressure = 1013.25, humidity = 50, wind_speed = 0,
       wind_angle = 0, coriolis = False, latitude = 45, air_density = 1.225 \<rparr>
     0 0 0 (0, 0, 100, 0) 1"
  using non_rocket_no_thrust[where
      p = "Projectile_init 3.2 0.082 ''mortar'' 150 ''mortar'' (Some [(0, 1000)]) 2 None"
      and t = 1 and tc = "[]" and bt = 0 and ang = 0 and wx = 0 and wy = 0
      and s = "(0, 0, 100, 0)" and env =
      "\<lparr> altitude = 0, temperature = 15, pressure = 1013.25, humidity = 50, wind_speed = 0,
       wind_angle = 0, coriolis = False, latitude = 45, air_density = 1.225 \<rparr>"]
  by (simp add: Projectile_init_def)



subsection \<open>The RK4 loop: termination and bounds\<close>

lemma adaptive_step_ge: "min_ts \<le> adaptive_step min_ts max_ts v"
  by (simp add: adaptive_step_def)

text \<open>
  Rounding to a double changes a positive number by at most the fraction \<open>1 / 2 ^ 53\<close> of
  its size.
\<close>

lemma round_half_even_error: "\<bar>of_int (round_half_even y) - y\<bar> \<le> 1 / 2"
proof -
  have "of_int \<lfloor>y\<rfloor> \<le> y" "y < of_int \<lfloor>y\<rfloor> + 1" by linarith+
  then show ?thesis by (auto simp: round_half_even_def Let_def)
qed

lemma round_double_error:
  assumes "0 < x"
  shows "\<bar>round_double x - x\<bar> \<le> x / 2 ^ 53"
proof -
  define k where "k = \<lfloor>log 2 x\<rfloor>"
  define ulp :: real where "ulp = 2 powr of_int (k - 52)"
  have ulp: "0 < ulp" by (simp add: ulp_def)
  have rd: "round_double x = of_int (round_half_even (x / ulp)) * ulp"
    using assms by (simp add: round_double_def Let_def ulp_def k_def)
  have "of_int k \<le> log 2 x" unfolding k_def by simp
  then have "2 powr of_int k \<le> x" using assms by (simp add: le_log_iff)
  moreover have "ulp = 2 powr of_int k / 2 ^ 52"
    by (simp add: ulp_def powr_diff)
  ultimately have small: "ulp \<le> x / 2 ^ 52" by (simp add: divide_right_mono)
  have "round_double x - x = (of_int (round_half_even (x / ulp)) - x / ulp) * ulp"
    using ulp by (simp add: rd left_diff_distrib)
  then have "\<bar>round_double x - x\<bar> = \<bar>of_int (round_half_even (x / ulp)) - x / ulp\<bar> * ulp"
    using ulp by (simp add: abs_mult)
  also have "\<dots> \<le> (1 / 2) * ulp"
    using round_half_even_error ulp by (intro mult_right_mono) simp_all
  also have "\<dots> \<le> (1 / 2) * (x / 2 ^ 52)" using small by simp
  also have "\<dots> = x / 2 ^ 53" by simp
  finally show ?thesis .
qed

text \<open>
  The rounding at work: 1 is a double; the decimal 0.1 is not, the double next to it is
  \<open>3602879701896397 / 2 ^ 55\<close>; above \<open>2 ^ 53\<close> the doubles are the even integers, and a tie
  goes to the one with the even significand; a clock at 16 s does not move by a step of
  \<open>1 / 10 ^ 15\<close> s.
\<close>

lemma floor_log2:
  assumes "0 < x" "2 powr of_int k \<le> x" "x < 2 powr of_int (k + 1)"
  shows "\<lfloor>log 2 x\<rfloor> = k"
proof -
  have "of_int k \<le> log 2 x" using assms(1,2) by (simp add: le_log_iff)
  moreover have "log 2 x < of_int (k + 1)" using assms(1,3) by (simp add: log_less_iff)
  ultimately show ?thesis by linarith
qed

lemma round_double_examples:
  "round_double 1 = 1"
  "round_double 0.1 = 3602879701896397 / 2 ^ 55"
  "round_double (2 ^ 53 + 1) = 2 ^ 53"
  "round_double (2 ^ 53 + 3) = 2 ^ 53 + 4"
  "round_double (16 + 1 / 10 ^ 15) = 16"
proof -
  have a: "\<lfloor>log 2 \<bar>1::real\<bar>\<rfloor> = 0" by simp
  have b: "\<lfloor>log 2 \<bar>0.1::real\<bar>\<rfloor> = - 4"
    by (rule floor_log2) (simp_all add: powr_minus)
  have c: "\<lfloor>log 2 \<bar>2 ^ 53 + 1 :: real\<bar>\<rfloor> = 53"
    by (rule floor_log2) (simp_all add: powr_realpow)
  have d: "\<lfloor>log 2 \<bar>2 ^ 53 + 3 :: real\<bar>\<rfloor> = 53"
    by (rule floor_log2) (simp_all add: powr_realpow)
  have e: "\<lfloor>log 2 \<bar>16 + 1 / 10 ^ 15 :: real\<bar>\<rfloor> = 4"
    by (rule floor_log2) (simp_all add: powr_realpow)
  show "round_double 1 = 1"
    unfolding round_double_def a by (simp add: round_half_even_def powr_minus)
  show "round_double 0.1 = 3602879701896397 / 2 ^ 55"
    unfolding round_double_def b by (simp add: round_half_even_def powr_minus Let_def)
  show "round_double (2 ^ 53 + 1) = 2 ^ 53"
    unfolding round_double_def c by (simp add: round_half_even_def Let_def)
  show "round_double (2 ^ 53 + 3) = 2 ^ 53 + 4"
    unfolding round_double_def d by (simp add: round_half_even_def Let_def)
  show "round_double (16 + 1 / 10 ^ 15) = 16"
    unfolding round_double_def e by (simp add: round_half_even_def powr_minus Let_def)
qed

text \<open>
  The clock after one step. A clock \<open>t\<close> in \<open>[0, 120)\<close> advanced by a step of at least
  \<open>min_time_step\<close> stores a number that exceeds \<open>t\<close> by at least
  \<open>min_time_step * (1 - 1 / 2 ^ 53) - 120 / 2 ^ 53\<close>.
\<close>

lemma clock_advance:
  assumes pos: "0 < min_ts" and t: "0 \<le> t" "t < 120" and dt: "min_ts \<le> dt"
  shows "t + (min_ts * (1 - 1 / 2 ^ 53) - 120 * (1 / 2 ^ 53)) \<le> round_double (t + dt)"
proof -
  define eps :: real where "eps = 1 / 2 ^ 53"
  have eps: "0 \<le> eps" "eps < 1" by (simp_all add: eps_def)
  have x: "0 < t + dt" using t(1) dt pos by linarith
  from round_double_error[OF x]
  have "\<bar>round_double (t + dt) - (t + dt)\<bar> \<le> eps * (t + dt)" by (simp add: eps_def)
  then have lo: "(t + dt) - eps * (t + dt) \<le> round_double (t + dt)"
    by (simp add: abs_le_iff)
  have a: "eps * t \<le> eps * 120"
    using eps(1) t(2) by (intro mult_left_mono) simp_all
  have b: "min_ts * (1 - eps) \<le> dt * (1 - eps)"
    using dt eps(2) by (intro mult_right_mono) simp_all
  have "(t + dt) - eps * (t + dt) = t - eps * t + dt * (1 - eps)"
    by (simp add: algebra_simps)
  with lo a b have "t + (min_ts * (1 - eps) - 120 * eps) \<le> round_double (t + dt)"
    by linarith
  then show ?thesis unfolding eps_def .
qed

lemma clock_measure:
  fixes dl :: real
  assumes dl: "0 < dl" and t: "t < 120" and adv: "t + dl \<le> t'"
  shows "nat \<lceil>(120 - t') / dl\<rceil> < nat \<lceil>(120 - t) / dl\<rceil>"
proof -
  have "120 - t' \<le> (120 - t) - dl" using adv by simp
  then have "(120 - t') / dl \<le> ((120 - t) - dl) / dl"
    using dl by (simp add: divide_right_mono)
  also have "\<dots> = (120 - t) / dl - 1"
    using dl by (simp add: diff_divide_distrib)
  finally have q: "(120 - t') / dl \<le> (120 - t) / dl - 1" .
  have p: "0 < (120 - t) / dl" using t dl by simp
  have c1: "0 < \<lceil>(120 - t) / dl\<rceil>" using p by linarith
  have c2: "\<lceil>(120 - t') / dl\<rceil> \<le> \<lceil>(120 - t) / dl\<rceil> - 1"
    using q by linarith
  show ?thesis using c1 c2 by linarith
qed

text \<open>
  For a minimal step of at least \<open>1 / 100000\<close> this advance is positive, and it fits into 120
  at most once more often than the minimal step itself.
\<close>

lemma double_clock_bound:
  fixes m :: real
  assumes m: "1 / 100000 \<le> m"
  shows "0 < m * (1 - 1 / 2 ^ 53) - 120 * (1 / 2 ^ 53)"
    and "nat \<lceil>120 / (m * (1 - 1 / 2 ^ 53) - 120 * (1 / 2 ^ 53))\<rceil> \<le> nat \<lceil>120 / m\<rceil> + 1"
proof -
  define dl where "dl = m * (1 - 1 / 2 ^ 53) - 120 * (1 / 2 ^ 53)"
  have mp: "0 < m" using m by simp
  show dl: "0 < m * (1 - 1 / 2 ^ 53) - 120 * (1 / 2 ^ 53)" using m by simp
  have m1: "(1 / 100000) * m \<le> m * m" using m mp by (intro mult_right_mono) simp_all
  have m2: "(1 / 100000) * (1 / 100000) \<le> m * m" using m by (intro mult_mono) simp_all
  have alg: "(120 + m) * (m * (1 - u) - 120 * u) - 120 * m
      = m * m - (m * m) * u - 240 * m * u - 14400 * u" for u :: real
    by (simp add: algebra_simps)
  have p: "(1::real) / 2 ^ 53 = 1 / 9007199254740992" by simp
  have "0 \<le> (120 + m) * dl - 120 * m"
    unfolding dl_def alg p using m1 m2 m by linarith
  then have key: "120 * m \<le> (120 + m) * dl" by simp
  have "120 / dl \<le> (120 + m) / m"
    using dl mp key unfolding dl_def[symmetric] by (simp add: field_simps)
  also have "\<dots> = 120 / m + 1" using mp by (simp add: field_simps)
  finally have "\<lceil>120 / dl\<rceil> \<le> \<lceil>120 / m + 1\<rceil>" by (rule ceiling_mono)
  then have c: "\<lceil>120 / dl\<rceil> \<le> \<lceil>120 / m\<rceil> + 1" by simp
  have "0 \<le> 120 / m" using mp by simp
  then have n: "0 \<le> \<lceil>120 / m\<rceil>" by linarith
  have "nat \<lceil>120 / dl\<rceil> \<le> nat \<lceil>120 / m\<rceil> + 1" using c n by linarith
  then show "nat \<lceil>120 / (m * (1 - 1 / 2 ^ 53) - 120 * (1 / 2 ^ 53))\<rceil> \<le> nat \<lceil>120 / m\<rceil> + 1"
    unfolding dl_def .
qed


subsection \<open>The first sample\<close>

text \<open>Whatever the loop returns extends the samples collected so far.\<close>

lemma rk4_loop_prefix_aux:
  assumes "rk4_loop D min_ts max_ts s t traj = Some r"
  shows "\<forall>out. r = Inr out \<longrightarrow> (\<exists>rest. out = traj @ rest)"
proof (rule rk4_loop.raw_induct[where
      P = "\<lambda>D mn mx s t traj r. \<forall>out. r = Inr out \<longrightarrow> (\<exists>rest. out = traj @ rest)",
      OF _ assms], goal_cases)
  case (1 f D mn mx s time trajectory r)
  show ?case
  proof (cases "0 \<le> state_y s \<and> time < 120")
    case False
    with 1(2) show ?thesis by auto
  next
    case True
    show ?thesis
    proof (cases "rk4_step D (adaptive_step mn mx (hypot (state_vx s) (state_vy s))) s time")
      case (Inl e)
      with True 1(2) show ?thesis by auto
    next
      case (Inr s')
      with True 1(2) have
        "f D mn mx s' (round_double (time + adaptive_step mn mx (hypot (state_vx s) (state_vy s))))
           (trajectory @ [sample_of s time]) = Some r"
        by simp
      from 1(1)[OF this] show ?thesis by auto
    qed
  qed
qed

lemma rk4_loop_prefix:
  "rk4_loop D min_ts max_ts s t traj = Some (Inr out) \<Longrightarrow> \<exists>rest. out = traj @ rest"
  using rk4_loop_prefix_aux by blast

lemma hypot_polar: "hypot (v * cos a) (v * sin a) = \<bar>v\<bar>"
proof -
  have "(v * cos a)\<^sup>2 + (v * sin a)\<^sup>2 = v\<^sup>2 * ((sin a)\<^sup>2 + (cos a)\<^sup>2)"
    by (simp only: power_mult_distrib distrib_left add.commute)
  also have "\<dots> = v\<^sup>2" by simp
  finally show ?thesis by (simp add: hypot_def)
qed

text \<open>
  C3 (for the RK4 integrator). Whenever \<open>_calculate_trajectory\<close> of the RK4 calculators
  returns a trajectory for a muzzle velocity \<open>v0 > 0\<close> and a launch angle \<open>\<theta>\<close>
  (given in degrees), the trajectory is not empty and its first sample is
  \<open>(x, y, t, vx, vy, speed) = (0, 0, 0, v0 cos \<theta>, v0 sin \<theta>, v0)\<close>: the loop saves the
  state before it advances it.
\<close>

theorem first_sample_is_launch_state:
  assumes run: "calculate_trajectory self m d dm v ang alt temp pres hum ws wa cor lat
                  max_ts min_ts = Some (Inr traj)"
    and v: "0 < v"
  shows "traj \<noteq> [] \<and>
         hd traj = (0, 0, 0, v * cos (radians ang), v * sin (radians ang), v)"
proof -
  obtain env where env: "Environment_init alt temp pres hum ws wa cor lat = Inr env"
    using run unfolding calculate_trajectory_def
    by (cases "Environment_init alt temp pres hum ws wa cor lat") (simp_all add: Let_def)
  define D where "D = derivative
      (Projectile_init m d dm v (type_combo self) (Some [(0, thrust_input self)])
         (if type_combo self = ''rocket'' then burn_time_input self else 0)
         (loaded_drag_curve self))
      env (radians ang)
      (wind_speed env * cos (radians (wind_angle env)))
      (wind_speed env * sin (radians (wind_angle env)))"
  define s0 :: state where "s0 = (0, 0, v * cos (radians ang), v * sin (radians ang))"
  have loop: "rk4_loop D min_ts max_ts s0 0 [] = Some (Inr traj)"
    using run unfolding calculate_trajectory_def env D_def s0_def by (simp add: Let_def)
  have y0: "state_y s0 = 0" by (simp add: s0_def state_y_def)
  define dt where "dt = adaptive_step min_ts max_ts (hypot (state_vx s0) (state_vy s0))"
  have unf: "rk4_loop D min_ts max_ts s0 0 [] =
      (case rk4_step D dt s0 0 of Inl e \<Rightarrow> Some (Inl e)
       | Inr s' \<Rightarrow> rk4_loop D min_ts max_ts s' (round_double (0 + dt)) ([] @ [sample_of s0 0]))"
    unfolding dt_def by (subst rk4_loop.simps) (simp add: y0)
  obtain s' where
    "rk4_loop D min_ts max_ts s' (round_double (0 + dt)) ([] @ [sample_of s0 0]) = Some (Inr traj)"
    using loop unfolding unf by (cases "rk4_step D dt s0 0") simp_all
  from rk4_loop_prefix[OF this] obtain rest where
    rest: "traj = ([] @ [sample_of s0 0]) @ rest" by blast
  have "sample_of s0 0 = (0, 0, 0, v * cos (radians ang), v * sin (radians ang), v)"
    using v by (simp add: sample_of_def s0_def state_y_def state_vx_def state_vy_def hypot_polar)
  with rest show ?thesis by simp
qed

subsection \<open>Flight without drag\<close>

text \<open>
  With the drag coefficient 0, no wind, no Coriolis term and no thrust the derivative is
  gravity alone, and one RK4 step follows the parabola exactly.
\<close>

lemma derivative_zero_drag:
  assumes "projectile_type p \<noteq> ''rocket''" "drag_model p = ''Custom''"
    "custom_drag_curve p = Some [(0, 0)]" "mass p \<noteq> 0" "\<not> coriolis env"
  shows "derivative p env ang 0 0 (x, y, vx, vy) t = Inr (vx, vy, 0, - GRAVITY)"
proof -
  have cd: "drag_coefficient p w = 0" for w
    using assms(2,3)
    by (simp add: drag_coefficient_def DragModel_custom_def interpolate_curve_def)
  have gm: "get_mass p t = Inr (mass p)"
    using assms(1) by (simp add: get_mass_def)
  show ?thesis
    using assms(1,4,5)
    by (simp add: derivative_def cd gm py_div_def ebind_def Let_def)
qed

lemma rk4_step_free_flight:
  assumes D: "\<And>x y vx vy t. D (x, y, vx, vy) t = Inr (vx, vy, 0, - GRAVITY)"
  shows "rk4_step D dt (x, y, vx, vy) t =
     Inr (x + dt * vx, y + dt * vy - dt * dt * GRAVITY / 2, vx, vy - dt * GRAVITY)"
  by (simp add: rk4_step_def D ebind_def axpy_def rk4_combine_def field_simps)


lemma adaptive_step_slow:
  assumes "0 \<le> mx" "mn \<le> mx" "w \<le> 1000"
  shows "adaptive_step mn mx w = mx"
proof -
  have p: "0 < max 100 w" by simp
  have "max 100 w \<le> 1000" using assms(3) by simp
  then have "1 \<le> 1000 / max 100 w" using p by (simp add: field_simps)
  then have "mx * 1 \<le> mx * (1000 / max 100 w)"
    using assms(1) by (rule mult_left_mono)
  then have "min mx (mx * (1000 / max 100 w)) = mx" by simp
  then have "adaptive_step mn mx w = max mn mx"
    unfolding adaptive_step_def by (simp only:)
  also have "\<dots> = mx" using assms(2) by simp
  finally show ?thesis .
qed


lemma zero_drag_run:
  assumes "m \<noteq> 0" "- 237.3 < temp" "0 < pres"
  shows "calculate_trajectory zero_drag_bullet m d ''Custom'' v ang alt temp pres hum 0 wa
           False lat max_ts min_ts
         = rk4_loop (\<lambda>s t. Inr (state_vx s, state_vy s, 0, - GRAVITY)) min_ts max_ts
             (0, 0, v * cos (radians ang), v * sin (radians ang)) 0 []"
proof -
  obtain rho where e: "Environment_init alt temp pres hum 0 wa False lat =
     Inr \<lparr> altitude = alt, temperature = temp, pressure = pres, humidity = hum,
           wind_speed = 0, wind_angle = wa, coriolis = False, latitude = lat,
           air_density = rho \<rparr>"
    using Environment_init_standard[OF assms(2,3)] by blast
  have D: "derivative (Projectile_init m d ''Custom'' v ''bullet'' (Some [(0, 0)]) 0
                         (Some [(0, 0)]))
          \<lparr> altitude = alt, temperature = temp, pressure = pres, humidity = hum,
            wind_speed = 0, wind_angle = wa, coriolis = False, latitude = lat,
            air_density = rho \<rparr>
          (radians ang) 0 0 s t
        = Inr (state_vx s, state_vy s, 0, - GRAVITY)" for s t
  proof (cases s)
    case (fields x y vx vy)
    show ?thesis unfolding fields
      by (subst derivative_zero_drag)
         (use assms(1) in \<open>simp_all add: Projectile_init_def state_vx_def state_vy_def\<close>)
  qed
  have D': "derivative (Projectile_init m d ''Custom'' v ''bullet'' (Some [(0, 0)]) 0
                         (Some [(0, 0)]))
          \<lparr> altitude = alt, temperature = temp, pressure = pres, humidity = hum,
            wind_speed = 0, wind_angle = wa, coriolis = False, latitude = lat,
            air_density = rho \<rparr>
          (radians ang) 0 0
        = (\<lambda>s t. Inr (state_vx s, state_vy s, 0, - GRAVITY))"
    by (intro ext) (rule D)
  show ?thesis
    unfolding calculate_trajectory_def e by (simp add: Let_def D' zero_drag_bullet_def)
qed

text \<open>
  The loop over a derivative that never raises returns a trajectory, when the minimal step
  is at least \<open>1 / 100000\<close>.
\<close>

lemma rk4_step_total:
  assumes D: "\<forall>s t. 0 \<le> t \<longrightarrow> (\<exists>k. D s t = Inr k)" and "0 \<le> t" "0 \<le> dt"
  shows "\<exists>s'. rk4_step D dt s t = Inr s'"
proof -
  obtain k1 where k1: "D s t = Inr k1" using D assms(2) by blast
  have t2: "0 \<le> t + 0.5 * dt" using assms(2,3) by simp
  obtain k2 where k2: "D (axpy s (0.5 * dt) k1) (t + 0.5 * dt) = Inr k2"
    using D t2 by blast
  obtain k3 where k3: "D (axpy s (0.5 * dt) k2) (t + 0.5 * dt) = Inr k3"
    using D t2 by blast
  have t4: "0 \<le> t + dt" using assms(2,3) by simp
  obtain k4 where k4: "D (axpy s dt k3) (t + dt) = Inr k4"
    using D t4 by blast
  show ?thesis unfolding rk4_step_def ebind_def k1 sum.case k2 k3 k4 by blast
qed

lemma rk4_loop_returns:
  assumes m: "1 / 100000 \<le> min_ts" and D: "\<forall>s t. 0 \<le> t \<longrightarrow> (\<exists>k. D s t = Inr k)"
  shows "0 \<le> t \<Longrightarrow> \<exists>out. rk4_loop D min_ts max_ts s t traj = Some (Inr out)"
proof -
  define dl where "dl = min_ts * (1 - 1 / 2 ^ 53) - 120 * (1 / 2 ^ 53)"
  have pos: "0 < min_ts" using m by simp
  have dl: "0 < dl" unfolding dl_def using m by (rule double_clock_bound(1))
  show "0 \<le> t \<Longrightarrow> \<exists>out. rk4_loop D min_ts max_ts s t traj = Some (Inr out)"
  proof (induction "nat \<lceil>(120 - t) / dl\<rceil>" arbitrary: s t traj rule: less_induct)
    case less
    show ?case
    proof (cases "state_y s \<ge> 0 \<and> t < 120")
      case False
      then have "rk4_loop D min_ts max_ts s t traj = Some (Inr traj)"
        by (subst rk4_loop.simps) auto
      then show ?thesis by simp
    next
      case True
      define dt where "dt = adaptive_step min_ts max_ts (hypot (state_vx s) (state_vy s))"
      have dt: "min_ts \<le> dt" unfolding dt_def by (rule adaptive_step_ge)
      have dpos: "0 \<le> dt" using pos dt by linarith
      obtain s' where s': "rk4_step D dt s t = Inr s'"
        using rk4_step_total[OF D less.prems dpos] by blast
      then have unf: "rk4_loop D min_ts max_ts s t traj =
            rk4_loop D min_ts max_ts s' (round_double (t + dt)) (traj @ [sample_of s t])"
        using True by (subst rk4_loop.simps) (simp add: dt_def)
      have step: "t + dl \<le> round_double (t + dt)"
        unfolding dl_def using pos less.prems True dt by (intro clock_advance) simp_all
      have dec: "nat \<lceil>(120 - round_double (t + dt)) / dl\<rceil> < nat \<lceil>(120 - t) / dl\<rceil>"
        using dl True step by (intro clock_measure) simp_all
      have t': "0 \<le> round_double (t + dt)" using step dl less.prems by linarith
      from less.hyps[OF dec t'] show ?thesis unfolding unf by blast
    qed
  qed
qed


text \<open>
  A level shot at 1 m/s without drag is below the launch height after one step: the
  trajectory is the launch sample alone.
\<close>

lemma short_flight:
  "calculate_trajectory zero_drag_bullet 0.01 0.00762 ''Custom'' 1 0 0 15 1013.25 50
        0 0 False 45 0.1 0.001
   = Some (Inr [(0, 0, 0, 1, 0, 1)])"
proof -
  let ?D = "\<lambda>(s::state) (t::real). (Inr (state_vx s, state_vy s, 0, - GRAVITY) :: py_error + state)"
  have D: "?D (x, y, vx, vy) t = Inr (vx, vy, 0, - GRAVITY)" for x y vx vy t
    by (simp add: state_vx_def state_vy_def)
  have eq: "calculate_trajectory zero_drag_bullet 0.01 0.00762 ''Custom'' 1 0 0 15 1013.25
        50 0 0 False 45 0.1 0.001
      = rk4_loop ?D 0.001 0.1 (0, 0, 1 * cos (radians 0), 1 * sin (radians 0)) 0 []"
    by (rule zero_drag_run) simp_all
  have st: "1 * cos (radians 0) = 1" "1 * sin (radians 0) = 0"
    by (simp_all add: radians_def)
  have dt: "adaptive_step 0.001 0.1 (hypot (state_vx (0, 0, 1, 0)) (state_vy (0, 0, 1, 0))) = 0.1"
    by (rule adaptive_step_slow) (simp_all add: state_vx_def state_vy_def)
  have step: "rk4_step ?D 0.1 (0, 0, 1, 0) 0 =
      Inr (0 + 0.1 * 1, 0 + 0.1 * 0 - 0.1 * 0.1 * GRAVITY / 2, 1, 0 - 0.1 * GRAVITY)"
    by (rule rk4_step_free_flight[OF D])
  have neg: "\<not> (0 \<le> state_y (0 + 0.1 * 1, 0 + 0.1 * 0 - 0.1 * 0.1 * GRAVITY / 2, 1,
                                  0 - 0.1 * GRAVITY) \<and> round_double (0 + 0.1) < 120)"
    by (simp add: state_y_def GRAVITY_def)
  have l2: "rk4_loop ?D 0.001 0.1
      (0 + 0.1 * 1, 0 + 0.1 * 0 - 0.1 * 0.1 * GRAVITY / 2, 1, 0 - 0.1 * GRAVITY)
      (round_double (0 + 0.1))
      ([] @ [sample_of (0, 0, 1, 0) 0]) = Some (Inr ([] @ [sample_of (0, 0, 1, 0) 0]))"
    by (subst rk4_loop.simps) (simp only: neg simp_thms if_False)
  have pos: "0 \<le> state_y (0, 0, 1, 0) \<and> (0::real) < 120"
    by (simp add: state_y_def)
  have l1: "rk4_loop ?D 0.001 0.1 (0, 0, 1, 0) 0 [] = Some (Inr ([] @ [sample_of (0, 0, 1, 0) 0]))"
    by (subst rk4_loop.simps) (simp only: pos simp_thms if_True dt step sum.case l2)
  have smp: "[] @ [sample_of (0, 0, 1, 0) 0] = [(0, 0, 0, 1, 0, 1)]"
    by (simp add: sample_of_def state_y_def state_vx_def state_vy_def)
  show ?thesis unfolding eq st l1 smp by (rule refl)
qed

text \<open>The first sample of the level shot at 1 m/s.\<close>

theorem first_sample_is_launch_state_witness:
  "calculate_trajectory zero_drag_bullet 0.01 0.00762 ''Custom'' 1 0 0 15 1013.25 50
        0 0 False 45 0.1 0.001 = Some (Inr [(0, 0, 0, 1, 0, 1)]) \<and>
   (0::real) < 1 \<and>
   hd [(0, 0, 0, 1, 0, 1) :: sample] = (0, 0, 0, 1 * cos (radians 0), 1 * sin (radians 0), 1)"
proof -
  have v: "(0::real) < 1" by simp
  from first_sample_is_launch_state[OF short_flight v]
  have "hd [(0, 0, 0, 1, 0, 1) :: sample] = (0, 0, 0, 1 * cos (radians 0), 1 * sin (radians 0), 1)"
    by blast
  with short_flight v show ?thesis by blast
qed

subsection \<open>Termination and size of the RK4 trajectory\<close>



subsection \<open>The Euler integrator records the state after the step\<close>

lemma euler_step_zero_drag:
  assumes "v1_drag_coeff p = 0" "v1_mass p \<noteq> 0" "\<not> coriolis e"
  shows "euler_step p e 0 0 dt (x, y, vx, vy) =
     Inr (x + vx * dt, y + (vy - GRAVITY * dt) * dt, vx, vy - GRAVITY * dt)"
  using assms by (simp add: euler_step_def py_div_def ebind_def Let_def)

text \<open>
  C3 as stated fails for the Euler integrator of the first calculator, which appends the
  state after updating it: a 10 g projectile with drag coefficient 0 fired straight up at
  1 m/s in the standard atmosphere returns one sample, taken at \<open>t = 0.1\<close> with height
  0.0019335 and speed 0.019335, not the launch state \<open>(0, 0, 0, 0, 1, 1)\<close>.
\<close>

theorem euler_first_sample_counterexample:
  "calculate_trajectory_v1 0.01 0.00762 ''Custom'' 0 1 90 0 15 1013.25 50 0 0 False 45
     = Some (Inr [(0, 0.0019335, 0.1, 0, 0.019335, 0.019335)])"
proof -
  obtain rho where e: "Environment_init 0 15 1013.25 50 0 0 False 45 =
     Inr \<lparr> altitude = 0, temperature = 15, pressure = 1013.25, humidity = 50,
           wind_speed = 0, wind_angle = 0, coriolis = False, latitude = 45,
           air_density = rho \<rparr>"
    using Environment_init_standard[of 15 "1013.25" 0 50 0 0 False 45] by auto
  define E where "E = \<lparr> altitude = 0, temperature = 15, pressure = 1013.25, humidity = 50,
           wind_speed = 0, wind_angle = 0, coriolis = False, latitude = 45,
           air_density = rho \<rparr>"
  define P where "P = \<lparr> v1_mass = 0.01, v1_diameter = 0.00762, v1_drag_model = ''Custom'',
           v1_drag_coeff = 0, v1_velocity = 1, v1_area = pi * (0.00762 / 2)\<^sup>2 \<rparr>"
  have p: "Projectile_v1_init 0.01 0.00762 ''Custom'' 0 1 = Inr P"
    by (simp add: Projectile_v1_init_def ebind_def P_def)
  have step: "euler_step P E 0 0 0.1 (x, y, vx, vy) =
     Inr (x + vx * 0.1, y + (vy - GRAVITY * 0.1) * 0.1, vx, vy - GRAVITY * 0.1)" for x y vx vy
    by (rule euler_step_zero_drag) (simp_all add: P_def E_def)
  define s1 :: state where "s1 = (0 + 0 * 0.1, 0 + (1 - GRAVITY * 0.1) * 0.1, 0, 1 - GRAVITY * 0.1)"
  define s2 :: state where "s2 = (fst s1 + 0 * 0.1, state_y s1 + (state_vy s1 - GRAVITY * 0.1) * 0.1,
       0, state_vy s1 - GRAVITY * 0.1)"
  have st1: "euler_step P E 0 0 0.1 (0, 0, 0, 1) = Inr s1"
    unfolding s1_def by (rule step)
  have st2: "euler_step P E 0 0 0.1 s1 = Inr s2"
    unfolding s2_def by (subst (1) s1_def) (simp add: step s1_def state_y_def state_vy_def)
  have y1: "0 \<le> state_y s1" by (simp add: s1_def state_y_def GRAVITY_def)
  have y2: "\<not> 0 \<le> state_y s2"
    by (simp add: s2_def s1_def state_y_def state_vy_def GRAVITY_def)
  have y0: "0 \<le> state_y (0, 0, 0, 1)" by (simp add: state_y_def)
  have l3: "euler_loop P E 0 0 0.1 s2 (0 + 0.1 + 0.1) ([] @ [sample_of s1 (0 + 0.1)])
      = Some (Inr ([] @ [sample_of s1 (0 + 0.1)]))"
    by (subst euler_loop.simps) (simp only: y2 if_False)
  have l2: "euler_loop P E 0 0 0.1 s1 (0 + 0.1) ([] @ [sample_of s1 (0 + 0.1)])
      = Some (Inr ([] @ [sample_of s1 (0 + 0.1)]))"
    by (subst euler_loop.simps) (simp only: y1 y2 if_True if_False st2 sum.case l3)
  have l1: "euler_loop P E 0 0 0.1 (0, 0, 0, 1) 0 [] = Some (Inr ([] @ [sample_of s1 (0 + 0.1)]))"
    by (subst euler_loop.simps) (simp only: y0 y1 if_True st1 sum.case l2)
  have smp: "[] @ [sample_of s1 (0 + 0.1)] = [(0, 0.0019335, 0.1, 0, 0.019335, 0.019335)]"
    by (simp add: sample_of_def s1_def state_y_def state_vx_def state_vy_def GRAVITY_def)
  have run: "calculate_trajectory_euler 1 90 P E 0.1 = euler_loop P E 0 0 0.1 (0, 0, 0, 1) 0 []"
    by (simp add: calculate_trajectory_euler_def E_def radians_def Let_def)
  have e': "Environment_init 0 15 1013.25 50 0 0 False 45 = Inr E"
    unfolding E_def by (rule e)
  show ?thesis
    unfolding calculate_trajectory_v1_def p e' sum.case run l1 smp by (rule refl)
qed

lemma euler_step_level:
  assumes "v1_mass p \<noteq> 0" "\<not> coriolis e" "0 < vx"
  shows "\<exists>x' vx'. euler_step p e 0 0 dt (x, y, vx, 0) =
     Inr (x', y + (0 - GRAVITY * dt) * dt, vx', 0 - GRAVITY * dt)"
  using assms by (simp add: euler_step_def py_div_def ebind_def Let_def)

text \<open>
  With drag as well the first sample is not the launch state: a level shot (10 g, 7.62 mm,
  G1, 800 m/s, standard atmosphere) is below the launch height after one Euler step, and
  the returned trajectory is empty.
\<close>

lemma euler_level_shot_empty:
  "calculate_trajectory_v1 0.01 0.00762 ''G1'' 0.47 800 0 0 15 1013.25 50 0 0 False 45
     = Some (Inr [])"
proof -
  obtain rho where e: "Environment_init 0 15 1013.25 50 0 0 False 45 =
     Inr \<lparr> altitude = 0, temperature = 15, pressure = 1013.25, humidity = 50,
           wind_speed = 0, wind_angle = 0, coriolis = False, latitude = 45,
           air_density = rho \<rparr>"
    using Environment_init_standard[of 15 "1013.25" 0 50 0 0 False 45] by auto
  define E where "E = \<lparr> altitude = 0, temperature = 15, pressure = 1013.25, humidity = 50,
           wind_speed = 0, wind_angle = 0, coriolis = False, latitude = 45,
           air_density = rho \<rparr>"
  define P where "P = \<lparr> v1_mass = 0.01, v1_diameter = 0.00762, v1_drag_model = ''G1'',
           v1_drag_coeff = 0.519, v1_velocity = 800, v1_area = pi * (0.00762 / 2)\<^sup>2 \<rparr>"
  have p: "Projectile_v1_init 0.01 0.00762 ''G1'' 0.47 800 = Inr P"
    by (simp add: Projectile_v1_init_def DRAG_MODELS_coeff_def ebind_def P_def)
  have e': "Environment_init 0 15 1013.25 50 0 0 False 45 = Inr E"
    unfolding E_def by (rule e)
  obtain x' vx' where st: "euler_step P E 0 0 0.1 (0, 0, 800, 0) =
     Inr (x', 0 + (0 - GRAVITY * 0.1) * 0.1, vx', 0 - GRAVITY * 0.1)"
    using euler_step_level[of P E 800 "0.1" 0 0] by (auto simp: P_def E_def)
  define s1 :: state where "s1 = (x', 0 + (0 - GRAVITY * 0.1) * 0.1, vx', 0 - GRAVITY * 0.1)"
  have y1: "\<not> 0 \<le> state_y s1" by (simp add: s1_def state_y_def GRAVITY_def)
  have y0: "0 \<le> state_y (0, 0, 800, 0)" by (simp add: state_y_def)
  have l2: "euler_loop P E 0 0 0.1 s1 (0 + 0.1) [] = Some (Inr [])"
    by (subst euler_loop.simps) (simp only: y1 if_False)
  have l1: "euler_loop P E 0 0 0.1 (0, 0, 800, 0) 0 [] = Some (Inr [])"
    by (subst euler_loop.simps) (simp only: y0 y1 if_True if_False st sum.case l2 flip: s1_def)
  have run: "calculate_trajectory_euler 800 0 P E 0.1 = euler_loop P E 0 0 0.1 (0, 0, 800, 0) 0 []"
    by (simp add: calculate_trajectory_euler_def E_def radians_def Let_def)
  show ?thesis
    unfolding calculate_trajectory_v1_def p e' sum.case run l1 by (rule refl)
qed

subsection \<open>Where the engine returns\<close>

text \<open>
  \<open>get_thrust\<close> (with the empty-curve guard) never raises: the keys it looks up are keys
  of the dictionary, and two neighbouring sorted keys differ.
\<close>

lemma dict_get_key:
  "k \<in> fst ` set d \<Longrightarrow> \<exists>r. dict_get d k = Inr r"
  by (cases "map_of d k") (auto simp: dict_get_def map_of_eq_None_iff)

lemma thrust_loop_total:
  "distinct (t0 # ts) \<Longrightarrow> set (t0 # ts) \<subseteq> fst ` set d \<Longrightarrow> \<exists>r. thrust_loop d time t0 ts = Inr r"
proof (induction ts arbitrary: t0)
  case Nil
  then show ?case by simp
next
  case (Cons t1 ts)
  show ?case
  proof (cases "time \<le> t1")
    case True
    obtain f0 where f0: "dict_get d t0 = Inr f0" using dict_get_key[of t0 d] Cons.prems(2) by auto
    obtain f1 where f1: "dict_get d t1 = Inr f1" using dict_get_key[of t1 d] Cons.prems(2) by auto
    have "t1 - t0 \<noteq> 0" using Cons.prems(1) by auto
    with True f0 f1 show ?thesis by (simp add: ebind_def py_div_def)
  next
    case False
    have "distinct (t1 # ts)" "set (t1 # ts) \<subseteq> fst ` set d" using Cons.prems by auto
    from Cons.IH[OF this] False show ?thesis by simp
  qed
qed

lemma get_thrust_total: "\<exists>r. get_thrust p t = Inr r"
proof -
  define times where "times = sort (dict_keys (thrust_curve p))"
  have d: "distinct times" by (simp add: times_def dict_keys_def)
  have s: "set times = fst ` set (thrust_curve p)" by (simp add: times_def dict_keys_def)
  show ?thesis
  proof (cases "times = []")
    case True
    then show ?thesis by (simp add: get_thrust_def Let_def flip: times_def)
  next
    case False
    then have shape: "times = hd times # tl times" by simp
    have h: "hd times \<in> fst ` set (thrust_curve p)" using False s by (metis hd_in_set)
    have l: "last times \<in> fst ` set (thrust_curve p)" using False s by (metis last_in_set)
    obtain a where a: "dict_get (thrust_curve p) (hd times) = Inr a" using dict_get_key[OF h] by auto
    obtain b where b: "dict_get (thrust_curve p) (last times) = Inr b" using dict_get_key[OF l] by auto
    have "distinct (hd times # tl times)" "set (hd times # tl times) \<subseteq> fst ` set (thrust_curve p)"
      using d s shape by (metis, metis subset_refl)
    from thrust_loop_total[OF this] obtain c where
      c: "thrust_loop (thrust_curve p) t (hd times) (tl times) = Inr c" by auto
    show ?thesis
      using False a b c by (simp add: get_thrust_def Let_def flip: times_def)
  qed
qed

text \<open>
  The derivative of a constructed projectile of mass other than 0 returns, unless the
  projectile is a rocket with burn time 0 asked at a time at or before 0.
\<close>

lemma derivative_total:
  assumes m: "m \<noteq> 0" and bt: "ptype = ''rocket'' \<longrightarrow> bt \<noteq> 0 \<or> 0 < t"
  shows "\<exists>r. derivative (Projectile_init m d dm v ptype tc bt cdc) env ang wx wy s t = Inr r"
proof -
  define p where "p = Projectile_init m d dm v ptype tc bt cdc"
  have gm: "get_mass p t = Inr m"
    using bt unfolding p_def by (auto simp: get_mass_single_stage)
  obtain thr where thr: "get_thrust p t = Inr thr" using get_thrust_total by blast
  obtain x y vx vy where s: "s = (x, y, vx, vy)" by (cases s)
  show ?thesis
    unfolding p_def[symmetric] s derivative_def
    by (simp add: gm thr m py_div_def ebind_def Let_def)
qed

text \<open>
  So the integrator returns a trajectory for every input with a mass other than 0, a
  temperature above -237.3 Celsius, a positive pressure and a minimal step of at least
  \<open>1 / 100000\<close>, except for a rocket whose burn time is 0.
\<close>

lemma integrate_returns:
  assumes "m \<noteq> 0" "- 237.3 < temp" "0 < pres" "1 / 100000 \<le> min_ts"
    "type_combo self = ''rocket'' \<longrightarrow> burn_time_input self \<noteq> 0"
  shows "\<exists>traj. calculate_trajectory self m d dm v ang alt temp pres hum ws wa cor lat
            max_ts min_ts = Some (Inr traj)"
proof -
  obtain env where e: "Environment_init alt temp pres hum ws wa cor lat = Inr env"
    using Environment_init_standard[OF assms(2,3)] by metis
  have D: "\<forall>s t. 0 \<le> t \<longrightarrow> (\<exists>k. derivative
      (Projectile_init m d dm v (type_combo self) (Some [(0, thrust_input self)])
         (if type_combo self = ''rocket'' then burn_time_input self else 0)
         (loaded_drag_curve self))
      env (radians ang)
      (wind_speed env * cos (radians (wind_angle env)))
      (wind_speed env * sin (radians (wind_angle env))) s t = Inr k)"
    by (intro allI impI, rule derivative_total) (use assms(1,5) in auto)
  have z: "(0::real) \<le> 0" by simp
  from rk4_loop_returns[OF assms(4) D z]
  show ?thesis
    unfolding calculate_trajectory_def e by (simp add: Let_def)
qed

end
